theory Spec2Isabelle
  imports Main
begin

section \<open>Refreshing a materialized external table: the notebook as a state-passing program\<close>

text \<open>
  The notebook \<^verbatim>\<open>Synapse_Materialize_Query_CETAS_And_Generate_Stats.ipynb\<close> drops an
  external table, deletes its folder, recreates it with a CETAS statement and creates
  column statistics. All it does is call three external systems (a token service, a JDBC
  connection to the SQL engine, the file system utility) and print. The embedding therefore
  has three parts:
  \<^item> the external systems are a record of fallible operations over an arbitrary world
    \<open>'w\<close>: every operation returns either the exception it raised (\<open>Inl\<close>) or its value
    (\<open>Inr\<close>), together with the next world;
  \<^item> the notebook's functions are state-passing programs over that record; the state holds
    the world and the trace of everything observable: each external call with its outcome,
    each printed message, and each entry into one of the notebook's functions;
  \<^item> the two SQL queries that the notebook sends are read relationally over a model of the
    catalog views they select from.
\<close>

subsection \<open>Configuration, exceptions, handles\<close>

text \<open>The dictionary \<^verbatim>\<open>CONFIG\<close> with its four keys, all of them strings.\<close>

record config =
  external_table :: string
  workspace_name :: string
  database_name :: string
  materialized_table_output_path :: string

text \<open>
  An exception of class \<^verbatim>\<open>Exception\<close> with its message: what the external calls raise
  and what the two \<^verbatim>\<open>except Exception as e\<close> clauses catch.
\<close>

datatype exn = PyException string

type_synonym conn = nat
type_synonym stmt = nat

subsection \<open>The external systems\<close>

text \<open>
  \<^item> \<open>getToken\<close>: \<^verbatim>\<open>mssparkutils.credentials.getToken(audience)\<close>;
  \<^item> \<open>getConnection\<close>: \<^verbatim>\<open>DriverManager.getConnection(jdbc_url, props)\<close>, where the
    properties carry the token (and the constant driver name);
  \<^item> \<open>createStatement\<close>: \<^verbatim>\<open>conn.createStatement()\<close>;
  \<^item> \<open>executeQuery\<close>: \<^verbatim>\<open>stmt.executeQuery(sql)\<close>; the result set is the finite list of
    its rows, each row being its first column as a string, so that \<^verbatim>\<open>rs.next()\<close> and
    \<^verbatim>\<open>rs.getString(1)\<close> walk that list;
  \<^item> \<open>execute\<close>: \<^verbatim>\<open>stmt.execute(sql)\<close>;
  \<^item> \<open>close_stmt\<close>, \<open>close_conn\<close>: \<^verbatim>\<open>stmt.close()\<close>, \<^verbatim>\<open>conn.close()\<close>;
  \<^item> \<open>fs_rm\<close>: \<^verbatim>\<open>mssparkutils.fs.rm(path, recurse)\<close>.
\<close>

record 'w env =
  getToken :: "string \<Rightarrow> 'w \<Rightarrow> (exn + string) \<times> 'w"
  getConnection :: "string \<Rightarrow> string \<Rightarrow> 'w \<Rightarrow> (exn + conn) \<times> 'w"
  createStatement :: "conn \<Rightarrow> 'w \<Rightarrow> (exn + stmt) \<times> 'w"
  executeQuery :: "stmt \<Rightarrow> string \<Rightarrow> 'w \<Rightarrow> (exn + string list) \<times> 'w"
  execute :: "stmt \<Rightarrow> string \<Rightarrow> 'w \<Rightarrow> (exn + unit) \<times> 'w"
  close_stmt :: "stmt \<Rightarrow> 'w \<Rightarrow> (exn + unit) \<times> 'w"
  close_conn :: "conn \<Rightarrow> 'w \<Rightarrow> (exn + unit) \<times> 'w"
  fs_rm :: "string \<Rightarrow> bool \<Rightarrow> 'w \<Rightarrow> (exn + bool) \<times> 'w"

subsection \<open>Traces\<close>

datatype call =
    GetToken string
  | GetConnection string string
  | CreateStatement conn
  | ExecuteQuery stmt string
  | Execute stmt string
  | CloseStatement stmt
  | CloseConnection conn
  | FsRm string bool

text \<open>The notebook's functions, for the entries recorded in the trace.\<close>

datatype fn =
    Get_jdbc_connection
  | Table_exists
  | Drop_external_table
  | Delete_adls_path
  | Create_external_table
  | Create_statistics_for_external_table
  | Refresh_external_table

text \<open>
  One constructor for each \<^verbatim>\<open>print\<close> of the notebook, with the values its f-string
  interpolates (source lines in the order of the constructors: 166, 172, 174, 181, 213,
  217, 221, 223, 226, 233, 271, 281, 289, 295).
\<close>

datatype message =
    Dropped string
  | Deleted_path string
  | Path_not_found string
  | Created string
  | No_statistics string
  | Creating_statistics nat string
  | Executed string
  | Failed string exn
  | Statistics_error exn
  | Statistics_completed
  | Skipping_drop string
  | Refresh_error exn
  | Refresh_completed
  | Skipping_statistics

text \<open>
  \<open>Call c None\<close>: the external call \<open>c\<close> returned; \<open>Call c (Some e)\<close>: it raised \<open>e\<close>.
  \<open>Enter f\<close> marks the entry into the notebook's function \<open>f\<close>; it is bookkeeping of the
  model (the source has no such statement) and influences no result.
\<close>

datatype event = Enter fn | Call call "exn option" | Print message

record 'w state =
  world :: 'w
  trace :: "event list"

type_synonym ('w, 'a) prog = "'w state \<Rightarrow> (exn + 'a) \<times> 'w state"

definition preturn :: "'a \<Rightarrow> ('w, 'a) prog" where
  "preturn x s = (Inr x, s)"

definition pbind :: "('w, 'a) prog \<Rightarrow> ('a \<Rightarrow> ('w, 'b) prog) \<Rightarrow> ('w, 'b) prog" where
  "pbind m f s = (case m s of (Inl e, s') \<Rightarrow> (Inl e, s') | (Inr x, s') \<Rightarrow> f x s')"

definition raised :: "(exn + 'a) \<Rightarrow> exn option" where
  "raised r = (case r of Inl e \<Rightarrow> Some e | Inr _ \<Rightarrow> None)"

definition extern :: "call \<Rightarrow> ('w \<Rightarrow> (exn + 'a) \<times> 'w) \<Rightarrow> ('w, 'a) prog" where
  "extern c f s =
     (case f (world s) of
        (r, w') \<Rightarrow> (r, \<lparr>world = w', trace = trace s @ [Call c (raised r)]\<rparr>))"

definition print :: "message \<Rightarrow> ('w, unit) prog" where
  "print m s = (Inr (), s\<lparr>trace := trace s @ [Print m]\<rparr>)"

definition enter :: "fn \<Rightarrow> ('w, unit) prog" where
  "enter f s = (Inr (), s\<lparr>trace := trace s @ [Enter f]\<rparr>)"

text \<open>\<^verbatim>\<open>try: m  except Exception as e: h(e)\<close>\<close>

definition try_except :: "('w, 'a) prog \<Rightarrow> (exn \<Rightarrow> ('w, 'a) prog) \<Rightarrow> ('w, 'a) prog" where
  "try_except m h s = (case m s of (Inl e, s') \<Rightarrow> h e s' | (Inr x, s') \<Rightarrow> (Inr x, s'))"

subsection \<open>Python string helpers\<close>

text \<open>\<^verbatim>\<open>s.split(c)\<close> for a one-character separator: never the empty list.\<close>

fun split_on :: "char \<Rightarrow> string \<Rightarrow> string list" where
  "split_on c [] = [[]]"
| "split_on c (x # xs) =
     (if x = c then [] # split_on c xs
      else (case split_on c xs of [] \<Rightarrow> [[x]] | p # ps \<Rightarrow> (x # p) # ps))"

text \<open>\<^verbatim>\<open>s.rstrip(c)\<close> for a one-character set.\<close>

definition rstrip :: "char \<Rightarrow> string \<Rightarrow> string" where
  "rstrip c s = rev (dropWhile (\<lambda>x. x = c) (rev s))"

text \<open>\<^verbatim>\<open>s.split(c)[-1]\<close>\<close>

definition last_part :: "char \<Rightarrow> string \<Rightarrow> string" where
  "last_part c s = last (split_on c s)"

subsection \<open>The statements sent to the engine\<close>

text \<open>
  The module-level f-string \<^verbatim>\<open>cetas_sql\<close> (lines 101-112), as a function of the value
  that \<^verbatim>\<open>CONFIG\<close> has when the cell defining it runs.
\<close>

definition cetas_sql :: "config \<Rightarrow> string" where
  "cetas_sql CONFIG =
     ''\<newline>CREATE EXTERNAL TABLE '' @ external_table CONFIG @
     ''\<newline>    WITH (\<newline>    LOCATION = '/folder_name/',\<newline>    DATA_SOURCE = [data_source_name],\<newline>    FILE_FORMAT = [file_format_name]\<newline>    )\<newline>AS\<newline>    SELECT\<newline>       *\<newline>    FROM ...\<newline>''"

definition jdbc_url :: "config \<Rightarrow> string" where
  "jdbc_url config =
     ''jdbc:sqlserver://'' @ workspace_name config @ ''-ondemand.sql.azuresynapse.net:1433;'' @
     ''database='' @ database_name config @ '';'' @
     ''encrypt=true;'' @
     ''trustServerCertificate=false;'' @
     ''hostNameInCertificate=*.sql.azuresynapse.net;'' @
     ''loginTimeout=30;''"

definition table_exists_sql :: "string \<Rightarrow> string" where
  "table_exists_sql table_name =
     ''\<newline>        SELECT 1\<newline>        FROM sys.external_tables\<newline>        WHERE name = '' @ [CHR 0x27] @
     last_part CHR ''.'' table_name @ [CHR 0x27] @ ''\<newline>    ''"

definition drop_sql :: "string \<Rightarrow> string" where
  "drop_sql table_name = ''DROP EXTERNAL TABLE '' @ table_name"

definition stats_sql :: "string \<Rightarrow> string" where
  "stats_sql table_name =
     ''\<newline>        SELECT\<newline>           'CREATE STATISTICS [' + 'Stats_' + c.name + '] ON [' + schema_name(o.schema_id) + '].[' + object_name(o.object_id) + '] ([' + c.name + ']) WITH FULLSCAN;' AS cmd_create\<newline>        FROM sys.objects AS o\<newline>        INNER JOIN sys.columns AS c \<newline>           ON o.object_id = c.object_id\<newline>        LEFT JOIN sys.stats_columns AS sc \<newline>           ON sc.object_id = c.object_id AND sc.column_id = c.column_id\<newline>        LEFT JOIN sys.stats AS s\<newline>           ON s.object_id = sc.object_id AND s.stats_id = sc.stats_id\<newline>        WHERE o.name = '' @ [CHR 0x27] @
     table_name @ [CHR 0x27] @ ''\<newline>        ''"

subsection \<open>Utility functions (notebook cell 2)\<close>

definition get_jdbc_connection :: "'w env \<Rightarrow> config \<Rightarrow> ('w, conn) prog" where
  "get_jdbc_connection E config =
     pbind (enter Get_jdbc_connection) (\<lambda>_.
     pbind (extern (GetToken ''DW'') (getToken E ''DW'')) (\<lambda>token.
     extern (GetConnection (jdbc_url config) token)
            (getConnection E (jdbc_url config) token)))"

definition table_exists :: "'w env \<Rightarrow> stmt \<Rightarrow> string \<Rightarrow> ('w, bool) prog" where
  "table_exists E st table_name =
     pbind (enter Table_exists) (\<lambda>_.
     pbind (extern (ExecuteQuery st (table_exists_sql table_name))
                   (executeQuery E st (table_exists_sql table_name))) (\<lambda>rs.
     preturn (rs \<noteq> [])))"

definition drop_external_table :: "'w env \<Rightarrow> stmt \<Rightarrow> string \<Rightarrow> ('w, unit) prog" where
  "drop_external_table E st table_name =
     pbind (enter Drop_external_table) (\<lambda>_.
     pbind (extern (Execute st (drop_sql table_name)) (execute E st (drop_sql table_name))) (\<lambda>_.
     print (Dropped table_name)))"

definition delete_adls_path :: "'w env \<Rightarrow> string \<Rightarrow> ('w, unit) prog" where
  "delete_adls_path E path =
     pbind (enter Delete_adls_path) (\<lambda>_.
     pbind (extern (FsRm path True) (fs_rm E path True)) (\<lambda>deleted.
     if deleted then print (Deleted_path path) else print (Path_not_found path)))"

text \<open>
  \<open>cetas\<close> is the value of the global \<^verbatim>\<open>cetas_sql\<close>. The local \<^verbatim>\<open>location_folder\<close> is
  computed as in line 179 and, as there, not used.
\<close>

definition create_external_table :: "'w env \<Rightarrow> string \<Rightarrow> stmt \<Rightarrow> config \<Rightarrow> ('w, unit) prog" where
  "create_external_table E cetas st config =
     pbind (enter Create_external_table) (\<lambda>_.
     (let location_folder =
            last_part CHR ''/'' (rstrip CHR ''/'' (materialized_table_output_path config))
      in pbind (extern (Execute st cetas) (execute E st cetas)) (\<lambda>_.
         print (Created (external_table config)))))"

subsection \<open>Scoped connections: what the \<^verbatim>\<open>finally\<close> blocks see\<close>

text \<open>The locals \<^verbatim>\<open>conn\<close> and \<^verbatim>\<open>stmt\<close> of a function, \<open>None\<close> until assigned.\<close>

record frame =
  conn_var :: "conn option"
  stmt_var :: "stmt option"

text \<open>
  The two \<^verbatim>\<open>finally\<close> blocks (lines 228-233 and 284-289): close the statement if it is
  set, then the connection if it is set, then print. An exception raised by a close leaves
  the block at once.
\<close>

definition release :: "'w env \<Rightarrow> frame \<Rightarrow> message \<Rightarrow> ('w, unit) prog" where
  "release E fr completed =
     pbind (case stmt_var fr of
              None \<Rightarrow> preturn ()
            | Some st \<Rightarrow> extern (CloseStatement st) (close_stmt E st)) (\<lambda>_.
     pbind (case conn_var fr of
              None \<Rightarrow> preturn ()
            | Some c \<Rightarrow> extern (CloseConnection c) (close_conn E c)) (\<lambda>_.
     print completed))"

text \<open>
  What follows a \<^verbatim>\<open>try\<close> body that was left with the locals \<open>fr\<close> and the pending
  exception \<open>pending\<close>: the \<^verbatim>\<open>except\<close> clause prints and re-raises, the \<^verbatim>\<open>finally\<close>
  block runs, and an exception raised inside it replaces the pending one.
\<close>

definition except_finally ::
    "'w env \<Rightarrow> (exn \<Rightarrow> message) \<Rightarrow> message \<Rightarrow> exn option \<Rightarrow> frame \<Rightarrow> ('w, unit) prog" where
  "except_finally E on_error completed pending fr s =
     (let s1 = (case pending of None \<Rightarrow> s | Some e \<Rightarrow> snd (print (on_error e) s))
      in case release E fr completed s1 of
           (Inl e', s2) \<Rightarrow> (Inl e', s2)
         | (Inr _, s2) \<Rightarrow> (case pending of None \<Rightarrow> (Inr (), s2) | Some e \<Rightarrow> (Inl e, s2)))"

subsection \<open>Statistics (lines 183-233)\<close>

text \<open>The \<^verbatim>\<open>for cmd in commands\<close> loop with its inner \<^verbatim>\<open>try\<close>/\<^verbatim>\<open>except\<close>.\<close>

fun run_commands :: "'w env \<Rightarrow> stmt \<Rightarrow> string list \<Rightarrow> ('w, unit) prog" where
  "run_commands E st [] = preturn ()"
| "run_commands E st (cmd # cmds) =
     pbind (try_except
              (pbind (extern (Execute st cmd) (execute E st cmd)) (\<lambda>_. print (Executed cmd)))
              (\<lambda>e. print (Failed cmd e))) (\<lambda>_.
     run_commands E st cmds)"

text \<open>Lines 191-223, once \<^verbatim>\<open>stmt\<close> is set.\<close>

definition statistics_steps :: "'w env \<Rightarrow> config \<Rightarrow> stmt \<Rightarrow> ('w, unit) prog" where
  "statistics_steps E config st =
     (let table_name = last_part CHR ''.'' (external_table config)
      in pbind (extern (ExecuteQuery st (stats_sql table_name))
                       (executeQuery E st (stats_sql table_name))) (\<lambda>commands.
         if commands = [] then print (No_statistics table_name)
         else pbind (print (Creating_statistics (length commands) table_name)) (\<lambda>_.
              run_commands E st commands)))"

text \<open>
  The \<^verbatim>\<open>try\<close> body: the pending exception, if any, and the locals at the point where the
  body is left.
\<close>

definition statistics_try :: "'w env \<Rightarrow> config \<Rightarrow> 'w state \<Rightarrow> (exn option \<times> frame) \<times> 'w state" where
  "statistics_try E config s =
     (case get_jdbc_connection E config s of
        (Inl e, s1) \<Rightarrow> ((Some e, \<lparr>conn_var = None, stmt_var = None\<rparr>), s1)
      | (Inr c, s1) \<Rightarrow>
          (case extern (CreateStatement c) (createStatement E c) s1 of
             (Inl e, s2) \<Rightarrow> ((Some e, \<lparr>conn_var = Some c, stmt_var = None\<rparr>), s2)
           | (Inr st, s2) \<Rightarrow>
               (case statistics_steps E config st s2 of
                  (r, s3) \<Rightarrow> ((raised r, \<lparr>conn_var = Some c, stmt_var = Some st\<rparr>), s3))))"

definition create_statistics_for_external_table :: "'w env \<Rightarrow> config \<Rightarrow> ('w, unit) prog" where
  "create_statistics_for_external_table E config s =
     (case statistics_try E config (snd (enter Create_statistics_for_external_table s)) of
        ((pending, fr), s1) \<Rightarrow>
          except_finally E Statistics_error Statistics_completed pending fr s1)"

subsection \<open>Main logic (lines 257-295)\<close>

text \<open>Lines 268-277, once \<^verbatim>\<open>stmt\<close> is set.\<close>

definition refresh_steps :: "'w env \<Rightarrow> string \<Rightarrow> config \<Rightarrow> stmt \<Rightarrow> ('w, unit) prog" where
  "refresh_steps E cetas config st =
     pbind (table_exists E st (external_table config)) (\<lambda>exists.
     pbind (if exists then drop_external_table E st (external_table config)
            else print (Skipping_drop (external_table config))) (\<lambda>_.
     pbind (delete_adls_path E (materialized_table_output_path config)) (\<lambda>_.
     create_external_table E cetas st config)))"

text \<open>
  The \<^verbatim>\<open>try\<close> body: pending exception, locals, and \<^verbatim>\<open>table_created\<close>, which line 278
  sets only when line 277 has returned.
\<close>

definition refresh_try ::
    "'w env \<Rightarrow> string \<Rightarrow> config \<Rightarrow> 'w state \<Rightarrow> (exn option \<times> frame \<times> bool) \<times> 'w state" where
  "refresh_try E cetas config s =
     (case get_jdbc_connection E config s of
        (Inl e, s1) \<Rightarrow> ((Some e, \<lparr>conn_var = None, stmt_var = None\<rparr>, False), s1)
      | (Inr c, s1) \<Rightarrow>
          (case extern (CreateStatement c) (createStatement E c) s1 of
             (Inl e, s2) \<Rightarrow> ((Some e, \<lparr>conn_var = Some c, stmt_var = None\<rparr>, False), s2)
           | (Inr st, s2) \<Rightarrow>
               (case refresh_steps E cetas config st s2 of
                  (Inl e, s3) \<Rightarrow> ((Some e, \<lparr>conn_var = Some c, stmt_var = Some st\<rparr>, False), s3)
                | (Inr _, s3) \<Rightarrow> ((None, \<lparr>conn_var = Some c, stmt_var = Some st\<rparr>, True), s3))))"

text \<open>
  Lines 259-289: the \<^verbatim>\<open>try\<close>/\<^verbatim>\<open>except\<close>/\<^verbatim>\<open>finally\<close> statement. It yields
  \<^verbatim>\<open>table_created\<close> when control reaches line 291 and the exception otherwise.
\<close>

definition refresh_protected :: "'w env \<Rightarrow> string \<Rightarrow> config \<Rightarrow> ('w, bool) prog" where
  "refresh_protected E cetas config s =
     (case refresh_try E cetas config (snd (enter Refresh_external_table s)) of
        ((pending, fr, table_created), s1) \<Rightarrow>
          (case except_finally E Refresh_error Refresh_completed pending fr s1 of
             (Inl e, s2) \<Rightarrow> (Inl e, s2)
           | (Inr _, s2) \<Rightarrow> (Inr table_created, s2)))"

definition refresh_external_table :: "'w env \<Rightarrow> string \<Rightarrow> config \<Rightarrow> ('w, unit) prog" where
  "refresh_external_table E cetas config =
     pbind (refresh_protected E cetas config) (\<lambda>table_created.
     if table_created then create_statistics_for_external_table E config
     else print Skipping_statistics)"

subsection \<open>The catalog views and the two queries, read relationally\<close>

text \<open>
  The rows of \<^verbatim>\<open>sys.objects\<close>, \<^verbatim>\<open>sys.columns\<close>, \<^verbatim>\<open>sys.stats_columns\<close> and
  \<^verbatim>\<open>sys.stats\<close>, with the columns that the notebook's queries read. \<open>o_schema\<close> is
  \<^verbatim>\<open>schema_name(o.schema_id)\<close>, and \<^verbatim>\<open>object_name(o.object_id)\<close> is \<open>o_name\<close>.
  \<^verbatim>\<open>sys.external_tables\<close> is the view of the objects that are external tables. Names are
  compared as strings.
\<close>

record sys_object =
  o_object_id :: nat
  o_name :: string
  o_schema :: string
  o_external :: bool

record sys_column =
  c_object_id :: nat
  c_column_id :: nat
  c_name :: string

record sys_stats_column =
  sc_object_id :: nat
  sc_stats_id :: nat
  sc_column_id :: nat

record sys_stat =
  s_object_id :: nat
  s_stats_id :: nat
  s_name :: string

record catalog =
  sys_objects :: "sys_object list"
  sys_columns :: "sys_column list"
  sys_stats_columns :: "sys_stats_column list"
  sys_stats :: "sys_stat list"

definition sys_external_tables :: "catalog \<Rightarrow> sys_object list" where
  "sys_external_tables cat = filter o_external (sys_objects cat)"

text \<open>
  \<^verbatim>\<open>SELECT 1 FROM sys.external_tables WHERE name = 'n'\<close> (lines 154-158): one row for
  each external table of that name.
\<close>

definition external_tables_query :: "catalog \<Rightarrow> string \<Rightarrow> string list" where
  "external_tables_query cat n = [''1''. t \<leftarrow> sys_external_tables cat, o_name t = n]"

text \<open>
  \<^verbatim>\<open>LEFT JOIN\<close>: the matching rows of the right-hand side, or one row of NULLs when
  there is none.
\<close>

definition left_join :: "('a \<Rightarrow> bool) \<Rightarrow> 'a list \<Rightarrow> 'a option list" where
  "left_join on xs = (case filter on xs of [] \<Rightarrow> [None] | y # ys \<Rightarrow> map Some (y # ys))"

text \<open>The selected expression \<^verbatim>\<open>cmd_create\<close> (line 195).\<close>

definition cmd_create :: "sys_object \<Rightarrow> sys_column \<Rightarrow> string" where
  "cmd_create ob c =
     ''CREATE STATISTICS ['' @ ''Stats_'' @ c_name c @ ''] ON ['' @ o_schema ob @ ''].['' @
     o_name ob @ ''] (['' @ c_name c @ '']) WITH FULLSCAN;''"

text \<open>
  The statistics query (lines 193-204), joins in the order they are written. A comparison
  with a NULL \<^verbatim>\<open>sc\<close> is not true, so the second left join then yields its row of
  NULLs.
\<close>

definition stats_query :: "catalog \<Rightarrow> string \<Rightarrow> string list" where
  "stats_query cat table_name =
     [cmd_create ob c.
        ob \<leftarrow> sys_objects cat,
        c \<leftarrow> sys_columns cat, o_object_id ob = c_object_id c,
        sc \<leftarrow> left_join (\<lambda>sc. sc_object_id sc = c_object_id c \<and> sc_column_id sc = c_column_id c)
                        (sys_stats_columns cat),
        s \<leftarrow> left_join (\<lambda>s. case sc of None \<Rightarrow> False
                              | Some sc' \<Rightarrow> s_object_id s = sc_object_id sc' \<and>
                                           s_stats_id s = sc_stats_id sc')
                       (sys_stats cat),
        o_name ob = table_name]"

subsection \<open>A reference engine and store\<close>

text \<open>
  The SQL engine, the object store and the token service are external collaborators (spec
  sections 1 and 6); the repository has no code for them. The reference environment below
  gives them the behaviour that the spec and the notebook rely on. The two catalog queries
  are answered by the relational readings above. \<^verbatim>\<open>DROP EXTERNAL TABLE\<close> removes the table
  with its columns and statistics and leaves the files, and is rejected when the table is
  absent. \<^verbatim>\<open>CREATE EXTERNAL TABLE AS SELECT\<close> is rejected when the name is taken or when the
  output location already holds files (spec 4.3), and otherwise adds the table, with the
  columns that its query yields, and writes its folder. \<^verbatim>\<open>CREATE STATISTICS\<close> is rejected
  when the table or the column is missing or the statistics name is taken. The recursive
  delete returns whether it removed anything. Connections and statements are numbered, and
  the world keeps those that are open. The environment serves to run the notebook on
  concrete inputs; the general theorems hold for every environment.
\<close>

record sim =
  sim_cat :: catalog
  folders :: "string list"
  data_root :: string
  source_columns :: "string list"
  open_conns :: "conn list"
  open_stmts :: "stmt list"

fun strip_prefix :: "string \<Rightarrow> string \<Rightarrow> string option" where
  "strip_prefix [] s = Some s"
| "strip_prefix (p # ps) [] = None"
| "strip_prefix (p # ps) (x # xs) = (if p = x then strip_prefix ps xs else None)"

fun find_after :: "string \<Rightarrow> string \<Rightarrow> string option" where
  "find_after p [] = strip_prefix p []"
| "find_after p (x # xs) =
     (case strip_prefix p (x # xs) of Some r \<Rightarrow> Some r | None \<Rightarrow> find_after p xs)"

definition until :: "char \<Rightarrow> string \<Rightarrow> string" where
  "until c s = takeWhile (\<lambda>x. x \<noteq> c) s"

definition skip_space :: "string \<Rightarrow> string" where
  "skip_space s = dropWhile (\<lambda>x. x = CHR '' '' \<or> x = CHR 0x0A) s"

datatype request =
    Q_external_tables string
  | Q_statistics string
  | Drop_table string
  | Cetas string string
  | Create_stats string string string string

definition parse_query :: "string \<Rightarrow> request option" where
  "parse_query q =
     (case find_after ''FROM sys.external_tables'' q of
        Some r \<Rightarrow> map_option (\<lambda>n. Q_external_tables (until (CHR 0x27) n))
                    (find_after (''WHERE name = '' @ [CHR 0x27]) r)
      | None \<Rightarrow>
         (case find_after ''FROM sys.objects AS o'' q of
            Some r \<Rightarrow> map_option (\<lambda>n. Q_statistics (until (CHR 0x27) n))
                        (find_after (''WHERE o.name = '' @ [CHR 0x27]) r)
          | None \<Rightarrow> None))"

definition parse_create_statistics :: "string \<Rightarrow> request option" where
  "parse_create_statistics r =
     (case find_after ''] ON ['' r of
        None \<Rightarrow> None
      | Some r2 \<Rightarrow>
         (case find_after ''].['' r2 of
            None \<Rightarrow> None
          | Some r3 \<Rightarrow>
             (case find_after ''] (['' r3 of
                None \<Rightarrow> None
              | Some r4 \<Rightarrow>
                  Some (Create_stats (until CHR '']'' r) (until CHR '']'' r2)
                          (until CHR '']'' r3) (until CHR '']'' r4)))))"

definition parse_statement :: "string \<Rightarrow> request option" where
  "parse_statement q =
     (case strip_prefix ''DROP EXTERNAL TABLE '' (skip_space q) of
        Some n \<Rightarrow> Some (Drop_table n)
      | None \<Rightarrow>
     (case strip_prefix ''CREATE STATISTICS ['' (skip_space q) of
        Some r \<Rightarrow> parse_create_statistics r
      | None \<Rightarrow>
     (case strip_prefix ''CREATE EXTERNAL TABLE '' (skip_space q) of
        Some r \<Rightarrow> map_option (\<lambda>l. Cetas (until (CHR 0x0A) r) (until (CHR 0x27) l))
                    (find_after (''LOCATION = '' @ [CHR 0x27]) r)
      | None \<Rightarrow> None)))"

text \<open>A one-part name is in the default schema.\<close>

definition split_name :: "string \<Rightarrow> string \<times> string" where
  "split_name n =
     (case split_on CHR ''.'' n of
        [t] \<Rightarrow> (''dbo'', t)
      | ps \<Rightarrow> (last (butlast ps), last ps))"

definition fresh :: "nat list \<Rightarrow> nat" where
  "fresh xs = Suc (fold max xs 0)"

definition find_object :: "catalog \<Rightarrow> string \<Rightarrow> string \<Rightarrow> sys_object option" where
  "find_object c sch t =
     (case filter (\<lambda>ob. o_schema ob = sch \<and> o_name ob = t) (sys_objects c) of
        [] \<Rightarrow> None
      | ob # _ \<Rightarrow> Some ob)"

definition sim_drop :: "string \<Rightarrow> sim \<Rightarrow> (exn + unit) \<times> sim" where
  "sim_drop n w =
     (case split_name n of (sch, t) \<Rightarrow>
      (case filter o_external (case_option [] (\<lambda>ob. [ob]) (find_object (sim_cat w) sch t)) of
         [] \<Rightarrow> (Inl (PyException ''Cannot drop the external table because it does not exist''), w)
       | ob # _ \<Rightarrow>
           (Inr (), w\<lparr>sim_cat := \<lparr>
              sys_objects = filter (\<lambda>x. o_object_id x \<noteq> o_object_id ob) (sys_objects (sim_cat w)),
              sys_columns = filter (\<lambda>x. c_object_id x \<noteq> o_object_id ob) (sys_columns (sim_cat w)),
              sys_stats_columns =
                filter (\<lambda>x. sc_object_id x \<noteq> o_object_id ob) (sys_stats_columns (sim_cat w)),
              sys_stats = filter (\<lambda>x. s_object_id x \<noteq> o_object_id ob) (sys_stats (sim_cat w))\<rparr>\<rparr>)))"

definition sim_cetas :: "string \<Rightarrow> string \<Rightarrow> sim \<Rightarrow> (exn + unit) \<times> sim" where
  "sim_cetas n loc w =
     (case split_name n of (sch, t) \<Rightarrow>
      (let target = data_root w @ dropWhile (\<lambda>x. x = CHR ''/'') loc;
           oid = fresh (map o_object_id (sys_objects (sim_cat w)))
       in if find_object (sim_cat w) sch t \<noteq> None
          then (Inl (PyException ''There is already an object with this name''), w)
          else if target \<in> set (folders w)
          then (Inl (PyException ''External table location already exists''), w)
          else (Inr (), w\<lparr>
                 sim_cat := (sim_cat w)\<lparr>
                   sys_objects := sys_objects (sim_cat w) @
                     [\<lparr>o_object_id = oid, o_name = t, o_schema = sch, o_external = True\<rparr>],
                   sys_columns := sys_columns (sim_cat w) @
                     map (\<lambda>(i, cn). \<lparr>c_object_id = oid, c_column_id = Suc i, c_name = cn\<rparr>)
                         (enumerate 0 (source_columns w))\<rparr>,
                 folders := folders w @ [target]\<rparr>)))"

definition sim_create_stats ::
    "string \<Rightarrow> string \<Rightarrow> string \<Rightarrow> string \<Rightarrow> sim \<Rightarrow> (exn + unit) \<times> sim" where
  "sim_create_stats sn sch t col w =
     (case find_object (sim_cat w) sch t of
        None \<Rightarrow> (Inl (PyException ''Cannot find the object''), w)
      | Some ob \<Rightarrow>
         (case filter (\<lambda>c. c_object_id c = o_object_id ob \<and> c_name c = col) (sys_columns (sim_cat w)) of
            [] \<Rightarrow> (Inl (PyException ''Column name does not exist in the target table''), w)
          | c # _ \<Rightarrow>
             (if \<exists>s \<in> set (sys_stats (sim_cat w)). s_object_id s = o_object_id ob \<and> s_name s = sn
              then (Inl (PyException ''The statistics already exist''), w)
              else (let sid = fresh (map s_stats_id
                                (filter (\<lambda>s. s_object_id s = o_object_id ob) (sys_stats (sim_cat w))))
                    in (Inr (), w\<lparr>sim_cat := (sim_cat w)\<lparr>
                          sys_stats_columns := sys_stats_columns (sim_cat w) @
                            [\<lparr>sc_object_id = o_object_id ob, sc_stats_id = sid,
                              sc_column_id = c_column_id c\<rparr>],
                          sys_stats := sys_stats (sim_cat w) @
                            [\<lparr>s_object_id = o_object_id ob, s_stats_id = sid,
                              s_name = sn\<rparr>]\<rparr>\<rparr>)))))"

definition sim_execute :: "stmt \<Rightarrow> string \<Rightarrow> sim \<Rightarrow> (exn + unit) \<times> sim" where
  "sim_execute st q w =
     (case parse_statement q of
        Some (Drop_table n) \<Rightarrow> sim_drop n w
      | Some (Cetas n loc) \<Rightarrow> sim_cetas n loc w
      | Some (Create_stats sn sch t col) \<Rightarrow> sim_create_stats sn sch t col w
      | _ \<Rightarrow> (Inl (PyException ''Incorrect syntax''), w))"

definition sim_executeQuery :: "stmt \<Rightarrow> string \<Rightarrow> sim \<Rightarrow> (exn + string list) \<times> sim" where
  "sim_executeQuery st q w =
     (case parse_query q of
        Some (Q_external_tables n) \<Rightarrow> (Inr (external_tables_query (sim_cat w) n), w)
      | Some (Q_statistics n) \<Rightarrow> (Inr (stats_query (sim_cat w) n), w)
      | _ \<Rightarrow> (Inl (PyException ''Incorrect syntax''), w))"

definition sim_rm :: "string \<Rightarrow> bool \<Rightarrow> sim \<Rightarrow> (exn + bool) \<times> sim" where
  "sim_rm path recurse w =
     (if \<exists>f \<in> set (folders w). strip_prefix path f \<noteq> None
      then (Inr True, w\<lparr>folders := filter (\<lambda>f. strip_prefix path f = None) (folders w)\<rparr>)
      else (Inr False, w))"

definition sim_env :: "sim env" where
  "sim_env = \<lparr>
     getToken = (\<lambda>audience w. (Inr ''token'', w)),
     getConnection = (\<lambda>url token w.
        (Inr (fresh (open_conns w)), w\<lparr>open_conns := open_conns w @ [fresh (open_conns w)]\<rparr>)),
     createStatement = (\<lambda>c w.
        (Inr (fresh (open_stmts w)), w\<lparr>open_stmts := open_stmts w @ [fresh (open_stmts w)]\<rparr>)),
     executeQuery = sim_executeQuery,
     execute = sim_execute,
     close_stmt = (\<lambda>st w. (Inr (), w\<lparr>open_stmts := filter (\<lambda>x. x \<noteq> st) (open_stmts w)\<rparr>)),
     close_conn = (\<lambda>c w. (Inr (), w\<lparr>open_conns := filter (\<lambda>x. x \<noteq> c) (open_conns w)\<rparr>)),
     fs_rm = sim_rm\<rparr>"

section \<open>Vocabulary of the properties\<close>

subsection \<open>Events of a run\<close>

text \<open>
  The events that running \<open>p\<close> from \<open>s\<close> appends to the trace, and their projections: the
  functions of the notebook that were entered, the external calls that were made, the
  statements that were passed to \<^verbatim>\<open>stmt.execute\<close>.
\<close>

definition new_events :: "('w state \<Rightarrow> 'r \<times> 'w state) \<Rightarrow> 'w state \<Rightarrow> event list" where
  "new_events p s = drop (length (trace s)) (trace (snd (p s)))"

definition entered :: "event list \<Rightarrow> fn list" where
  "entered evs = [f. Enter f \<leftarrow> evs]"


definition executed :: "event list \<Rightarrow> string list" where
  "executed evs = [cmd. Call (Execute st cmd) r \<leftarrow> evs]"

text \<open>
  \<open>emits P p\<close>: whatever the start state, \<open>p\<close> only appends to the trace, and every
  event it appends satisfies \<open>P\<close>.
\<close>

definition emits :: "(event \<Rightarrow> bool) \<Rightarrow> ('w state \<Rightarrow> 'r \<times> 'w state) \<Rightarrow> bool" where
  "emits P p \<longleftrightarrow> (\<forall>s. \<exists>evs. trace (snd (p s)) = trace s @ evs \<and> list_all P evs)"

fun is_close :: "call \<Rightarrow> bool" where
  "is_close (CloseStatement st) = True"
| "is_close (CloseConnection c) = True"
| "is_close _ = False"

text \<open>
  \<open>strict p\<close>: \<open>p\<close> has no handler of its own, so that an external call that raises is the
  last thing \<open>p\<close> does and its exception is the result of \<open>p\<close>.
\<close>

definition strict :: "('w, 'a) prog \<Rightarrow> bool" where
  "strict p \<longleftrightarrow>
     emits (\<lambda>_. True) p \<and>
     (\<forall>s k e. Call k (Some e) \<in> set (new_events p s) \<longrightarrow>
        fst (p s) = Inl e \<and> last (new_events p s) = Call k (Some e))"

text \<open>
  The statements of the \<^verbatim>\<open>try\<close> body of \<^verbatim>\<open>refresh_external_table\<close> in sequence, without the
  bookkeeping of the locals: \<open>refresh_try\<close> has the same effects and the same outcome.
\<close>

definition refresh_body :: "'w env \<Rightarrow> string \<Rightarrow> config \<Rightarrow> ('w, unit) prog" where
  "refresh_body E cetas config =
     pbind (get_jdbc_connection E config) (\<lambda>c.
     pbind (extern (CreateStatement c) (createStatement E c)) (\<lambda>st.
     refresh_steps E cetas config st))"

subsection \<open>Assumptions on the environment\<close>

text \<open>
  \<open>closes_ok\<close>: \<^verbatim>\<open>stmt.close()\<close> and \<^verbatim>\<open>conn.close()\<close> never raise.
  \<open>connected E config s c st s2\<close>: from \<open>s\<close>, \<^verbatim>\<open>get_jdbc_connection(config)\<close> returns the
  connection \<open>c\<close>, \<^verbatim>\<open>c.createStatement()\<close> returns the statement \<open>st\<close>, and the state
  is then \<open>s2\<close>.
\<close>

definition closes_ok :: "'w env \<Rightarrow> bool" where
  "closes_ok E \<longleftrightarrow>
     (\<forall>st w. fst (close_stmt E st w) = Inr ()) \<and> (\<forall>c w. fst (close_conn E c w) = Inr ())"

definition connected :: "'w env \<Rightarrow> config \<Rightarrow> 'w state \<Rightarrow> conn \<Rightarrow> stmt \<Rightarrow> 'w state \<Rightarrow> bool" where
  "connected E config s c st s2 \<longleftrightarrow>
     (\<exists>s1. get_jdbc_connection E config s = (Inr c, s1) \<and>
           extern (CreateStatement c) (createStatement E c) s1 = (Inr st, s2))"

subsection \<open>Expected events\<close>

text \<open>
  What one command of the statistics loop leaves in the trace: the call with its outcome,
  then line 221 if it returned and line 223 if it raised. \<open>outcomes\<close> are the outcomes of
  the commands when they are executed one after the other, starting in the world \<open>w\<close>.
  \<open>release_events\<close> is what a \<^verbatim>\<open>finally\<close> block does to the locals when no close raises.
\<close>

definition command_events :: "stmt \<Rightarrow> string \<Rightarrow> exn option \<Rightarrow> event list" where
  "command_events st cmd r =
     [Call (Execute st cmd) r, Print (case r of None \<Rightarrow> Executed cmd | Some e \<Rightarrow> Failed cmd e)]"

fun outcomes :: "'w env \<Rightarrow> stmt \<Rightarrow> string list \<Rightarrow> 'w \<Rightarrow> exn option list" where
  "outcomes E st [] w = []"
| "outcomes E st (cmd # cmds) w =
     (case execute E st cmd w of (r, w') \<Rightarrow> raised r # outcomes E st cmds w')"

definition release_events :: "frame \<Rightarrow> event list" where
  "release_events fr =
     (case stmt_var fr of None \<Rightarrow> [] | Some st \<Rightarrow> [Call (CloseStatement st) None]) @
     (case conn_var fr of None \<Rightarrow> [] | Some c \<Rightarrow> [Call (CloseConnection c) None])"

subsection \<open>Catalogs with at most one statistics object on a column\<close>

definition matching_stats_columns :: "catalog \<Rightarrow> sys_column \<Rightarrow> sys_stats_column list" where
  "matching_stats_columns cat c =
     filter (\<lambda>sc. sc_object_id sc = c_object_id c \<and> sc_column_id sc = c_column_id c)
            (sys_stats_columns cat)"

definition matching_stats :: "catalog \<Rightarrow> sys_stats_column \<Rightarrow> sys_stat list" where
  "matching_stats cat sc =
     filter (\<lambda>s. s_object_id s = sc_object_id sc \<and> s_stats_id s = sc_stats_id sc) (sys_stats cat)"

definition at_most_one_statistics :: "catalog \<Rightarrow> bool" where
  "at_most_one_statistics cat \<longleftrightarrow>
     list_all (\<lambda>c. length (matching_stats_columns cat c) \<le> 1) (sys_columns cat) \<and>
     list_all (\<lambda>sc. length (matching_stats cat sc) \<le> 1) (sys_stats_columns cat)"

subsection \<open>Example inputs\<close>

text \<open>
  Worlds of the reference engine: nothing there; a table \<^verbatim>\<open>dbo.Sales\<close> with two columns,
  its folder, and statistics on the first column; the same table after a refresh with
  statistics on both columns; two tables named \<^verbatim>\<open>Sales\<close> in two schemas; no table but a
  folder left at the CETAS location. Configurations: one whose output path is the folder
  that the CETAS statement writes to, one with the output path that the notebook ships
  (which is not the \<^verbatim>\<open>LOCATION\<close> that its CETAS statement names), one for another
  table, and one for a table \<^verbatim>\<open>Sales\<close> of the schema \<^verbatim>\<open>stg\<close>.
\<close>

definition empty_world :: sim where
  "empty_world = \<lparr>
     sim_cat = \<lparr>sys_objects = [], sys_columns = [], sys_stats_columns = [], sys_stats = []\<rparr>,
     folders = [], data_root = ''abfss://t@a/'', source_columns = [''id'', ''amt''],
     open_conns = [], open_stmts = []\<rparr>"

definition sales_world :: sim where
  "sales_world = \<lparr>
     sim_cat = \<lparr>
       sys_objects = [\<lparr>o_object_id = 1, o_name = ''Sales'', o_schema = ''dbo'', o_external = True\<rparr>],
       sys_columns = [\<lparr>c_object_id = 1, c_column_id = 1, c_name = ''id''\<rparr>,
                      \<lparr>c_object_id = 1, c_column_id = 2, c_name = ''amt''\<rparr>],
       sys_stats_columns = [\<lparr>sc_object_id = 1, sc_stats_id = 1, sc_column_id = 1\<rparr>],
       sys_stats = [\<lparr>s_object_id = 1, s_stats_id = 1, s_name = ''Stats_id''\<rparr>]\<rparr>,
     folders = [''abfss://t@a/folder_name/''], data_root = ''abfss://t@a/'',
     source_columns = [''id'', ''amt''], open_conns = [], open_stmts = []\<rparr>"

definition refreshed_world :: sim where
  "refreshed_world = \<lparr>
     sim_cat = \<lparr>
       sys_objects = [\<lparr>o_object_id = 1, o_name = ''Sales'', o_schema = ''dbo'', o_external = True\<rparr>],
       sys_columns = [\<lparr>c_object_id = 1, c_column_id = 1, c_name = ''id''\<rparr>,
                      \<lparr>c_object_id = 1, c_column_id = 2, c_name = ''amt''\<rparr>],
       sys_stats_columns = [\<lparr>sc_object_id = 1, sc_stats_id = 1, sc_column_id = 1\<rparr>,
                            \<lparr>sc_object_id = 1, sc_stats_id = 2, sc_column_id = 2\<rparr>],
       sys_stats = [\<lparr>s_object_id = 1, s_stats_id = 1, s_name = ''Stats_id''\<rparr>,
                    \<lparr>s_object_id = 1, s_stats_id = 2, s_name = ''Stats_amt''\<rparr>]\<rparr>,
     folders = [''abfss://t@a/folder_name/''], data_root = ''abfss://t@a/'',
     source_columns = [''id'', ''amt''], open_conns = [], open_stmts = []\<rparr>"

definition two_schema_world :: sim where
  "two_schema_world = \<lparr>
     sim_cat = \<lparr>
       sys_objects = [\<lparr>o_object_id = 1, o_name = ''Sales'', o_schema = ''dbo'', o_external = True\<rparr>,
                      \<lparr>o_object_id = 2, o_name = ''Sales'', o_schema = ''stg'', o_external = True\<rparr>],
       sys_columns = [\<lparr>c_object_id = 1, c_column_id = 1, c_name = ''id''\<rparr>,
                      \<lparr>c_object_id = 2, c_column_id = 1, c_name = ''id''\<rparr>],
       sys_stats_columns = [],
       sys_stats = []\<rparr>,
     folders = [''abfss://t@a/folder_name/''], data_root = ''abfss://t@a/'',
     source_columns = [''id''], open_conns = [], open_stmts = []\<rparr>"

definition stale_world :: sim where
  "stale_world = empty_world\<lparr>folders := [''abfss://t@a/folder_name/'']\<rparr>"

definition duplicated_catalog :: catalog where
  "duplicated_catalog = \<lparr>
     sys_objects = [\<lparr>o_object_id = 1, o_name = ''Sales'', o_schema = ''dbo'', o_external = True\<rparr>],
     sys_columns = [\<lparr>c_object_id = 1, c_column_id = 1, c_name = ''id''\<rparr>],
     sys_stats_columns = [\<lparr>sc_object_id = 1, sc_stats_id = 1, sc_column_id = 1\<rparr>,
                          \<lparr>sc_object_id = 1, sc_stats_id = 2, sc_column_id = 1\<rparr>],
     sys_stats = [\<lparr>s_object_id = 1, s_stats_id = 1, s_name = ''Stats_id''\<rparr>,
                  \<lparr>s_object_id = 1, s_stats_id = 2, s_name = ''Manual_id''\<rparr>]\<rparr>"

definition example_config :: config where
  "example_config = \<lparr>external_table = ''dbo.Sales'', workspace_name = ''ws'',
     database_name = ''db'', materialized_table_output_path = ''abfss://t@a/folder_name/''\<rparr>"

definition shipped_config :: config where
  "shipped_config = \<lparr>external_table = ''dbo.Sales'', workspace_name = ''ws'',
     database_name = ''db'',
     materialized_table_output_path = ''abfss://t@a/folder/materialized_table/''\<rparr>"

definition other_config :: config where
  "other_config = \<lparr>external_table = ''dbo.Other'', workspace_name = ''ws'',
     database_name = ''db'', materialized_table_output_path = ''abfss://t@a/elsewhere/''\<rparr>"

definition staging_config :: config where
  "staging_config = \<lparr>external_table = ''stg.Sales'', workspace_name = ''ws'',
     database_name = ''db'', materialized_table_output_path = ''abfss://t@a/staging/''\<rparr>"

definition start :: "'w \<Rightarrow> 'w state" where
  "start w = \<lparr>world = w, trace = []\<rparr>"

definition connected_world :: "sim \<Rightarrow> sim" where
  "connected_world w = w\<lparr>open_conns := [1], open_stmts := [1]\<rparr>"

definition cmd_id :: string where
  "cmd_id = ''CREATE STATISTICS [Stats_id] ON [dbo].[Sales] ([id]) WITH FULLSCAN;''"

definition cmd_amt :: string where
  "cmd_amt = ''CREATE STATISTICS [Stats_amt] ON [dbo].[Sales] ([amt]) WITH FULLSCAN;''"

text \<open>
  The reference environment with a statement whose \<^verbatim>\<open>close()\<close> raises. The statement is a
  \<^verbatim>\<open>java.sql.Statement\<close>, whose \<^verbatim>\<open>close\<close> is declared to throw \<^verbatim>\<open>SQLException\<close>; in the
  notebook it arrives as a Python exception.
\<close>

definition failing_close_env :: "sim env" where
  "failing_close_env =
     sim_env\<lparr>close_stmt := (\<lambda>st w. (Inl (PyException ''close failed''), w))\<rparr>"

text \<open>
  One refresh with the notebook's globals taken from \<open>config\<close>, and two in succession, the
  second starting in the world that the first one left.
\<close>

definition refresh_once :: "config \<Rightarrow> sim \<Rightarrow> (exn + unit) \<times> sim state" where
  "refresh_once config w = refresh_external_table sim_env (cetas_sql config) config (start w)"

definition refresh_twice :: "config \<Rightarrow> sim \<Rightarrow> (exn + unit) \<times> sim state" where
  "refresh_twice config w = refresh_once config (world (snd (refresh_once config w)))"

section \<open>Lemmas\<close>

subsection \<open>Programs only append to the trace\<close>

lemma emitsD:
  assumes "emits P p"
  shows "trace (snd (p s)) = trace s @ new_events p s" and "list_all P (new_events p s)"
proof -
  from assms obtain evs where e: "trace (snd (p s)) = trace s @ evs" and p: "list_all P evs"
    unfolding emits_def by blast
  from e show "trace (snd (p s)) = trace s @ new_events p s" by (simp add: new_events_def)
  from e p show "list_all P (new_events p s)" by (simp add: new_events_def)
qed

lemma emitsI:
  assumes "\<And>s. \<exists>evs. trace (snd (p s)) = trace s @ evs \<and> list_all P evs"
  shows "emits P p"
  using assms by (simp add: emits_def)

lemma emits_preturn [simp]: "emits P (preturn x)"
  by (simp add: emits_def preturn_def)

lemma emits_print [simp]: "P (Print m) \<Longrightarrow> emits P (print m)"
  by (simp add: emits_def print_def)

lemma emits_enter [simp]: "P (Enter f) \<Longrightarrow> emits P (enter f)"
  by (simp add: emits_def enter_def)

lemma emits_extern [simp]: "(\<And>r. P (Call c r)) \<Longrightarrow> emits P (extern c f)"
  by (simp add: emits_def extern_def split: prod.splits)

lemma emits_then:
  assumes m: "emits P m" and f: "\<And>x. emits P (f x)"
    and step: "\<And>s. \<exists>x. snd (p s) = snd (m s) \<or> snd (p s) = snd (f x (snd (m s)))"
  shows "emits P p"
proof (rule emitsI)
  fix s
  from step obtain x where d: "snd (p s) = snd (m s) \<or> snd (p s) = snd (f x (snd (m s)))" by blast
  have m1: "trace (snd (m s)) = trace s @ new_events m s" "list_all P (new_events m s)"
    using emitsD[OF m] by blast+
  have f1: "trace (snd (f x (snd (m s)))) = trace (snd (m s)) @ new_events (f x) (snd (m s))"
           "list_all P (new_events (f x) (snd (m s)))"
    using emitsD[OF f] by blast+
  from d show "\<exists>evs. trace (snd (p s)) = trace s @ evs \<and> list_all P evs"
  proof
    assume "snd (p s) = snd (m s)"
    with m1 show ?thesis by auto
  next
    assume "snd (p s) = snd (f x (snd (m s)))"
    with m1 f1 have "trace (snd (p s)) = trace s @ (new_events m s @ new_events (f x) (snd (m s)))"
      and "list_all P (new_events m s @ new_events (f x) (snd (m s)))" by auto
    then show ?thesis by blast
  qed
qed

lemma emits_pbind [simp]:
  assumes "emits P m" and "\<And>x. emits P (f x)"
  shows "emits P (pbind m f)"
proof (rule emits_then[OF assms])
  fix s
  show "\<exists>x. snd (pbind m f s) = snd (m s) \<or> snd (pbind m f s) = snd (f x (snd (m s)))"
    by (cases "m s") (auto simp: pbind_def split: sum.splits)
qed

lemma emits_try_except [simp]:
  assumes "emits P m" and "\<And>e. emits P (h e)"
  shows "emits P (try_except m h)"
proof (rule emits_then[OF assms])
  fix s
  show "\<exists>x. snd (try_except m h s) = snd (m s) \<or> snd (try_except m h s) = snd (h x (snd (m s)))"
    by (cases "m s") (auto simp: try_except_def split: sum.splits)
qed

lemma emits_weaken: "emits P p \<Longrightarrow> (\<And>ev. P ev \<Longrightarrow> Q ev) \<Longrightarrow> emits Q p"
  unfolding emits_def list_all_iff by blast

subsection \<open>The statistics loop and the two finally blocks\<close>

lemma pbind_Inr: "m s = (Inr x, s') \<Longrightarrow> pbind m f s = f x s'"
  by (simp add: pbind_def)

lemma pbind_Inl: "m s = (Inl e, s') \<Longrightarrow> pbind m f s = (Inl e, s')"
  by (simp add: pbind_def)

lemma extern_eq:
  "f (world s) = (r, w') \<Longrightarrow>
   extern c f s = (r, \<lparr>world = w', trace = trace s @ [Call c (raised r)]\<rparr>)"
  by (simp add: extern_def)

lemma run_commands_fst: "fst (run_commands E st cmds s) = Inr ()"
proof (induction cmds arbitrary: s)
  case Nil
  show ?case by (simp add: preturn_def)
next
  case (Cons cmd cmds)
  obtain r w' where ex: "execute E st cmd (world s) = (r, w')" by (cases "execute E st cmd (world s)")
  show ?case
    using Cons.IH ex
    by (cases r) (simp_all add: pbind_def try_except_def extern_def print_def)
qed

lemma run_commands_trace:
  "trace (snd (run_commands E st cmds s)) =
   trace s @ concat (map2 (command_events st) cmds (outcomes E st cmds (world s)))"
proof (induction cmds arbitrary: s)
  case Nil
  show ?case by (simp add: preturn_def)
next
  case (Cons cmd cmds)
  obtain r w' where ex: "execute E st cmd (world s) = (r, w')" by (cases "execute E st cmd (world s)")
  show ?case
    using ex
    by (cases r)
       (simp_all add: pbind_def try_except_def extern_def print_def Cons.IH command_events_def
          raised_def)
qed

lemma length_outcomes [simp]: "length (outcomes E st cmds w) = length cmds"
  by (induction cmds arbitrary: w) (simp_all split: prod.splits)

lemma statistics_steps_run:
  assumes q: "executeQuery E st (stats_sql (last_part CHR ''.'' (external_table config))) (world s)
                = (Inr commands, w1)"
  shows "fst (statistics_steps E config st s) = Inr ()"
    and "trace (snd (statistics_steps E config st s)) =
         trace s @
         [Call (ExecuteQuery st (stats_sql (last_part CHR ''.'' (external_table config)))) None] @
         (if commands = [] then [Print (No_statistics (last_part CHR ''.'' (external_table config)))]
          else Print (Creating_statistics (length commands)
                        (last_part CHR ''.'' (external_table config))) #
               concat (map2 (command_events st) commands (outcomes E st commands w1)))"
  using q
  by (simp_all add: statistics_steps_def Let_def pbind_def extern_def print_def raised_def
        run_commands_fst run_commands_trace)

lemma release_run:
  assumes "closes_ok E"
  shows "fst (release E fr m s) = Inr ()"
    and "trace (snd (release E fr m s)) = trace s @ release_events fr @ [Print m]"
proof -
  have cs: "\<And>st w. \<exists>w'. close_stmt E st w = (Inr (), w')"
    using assms unfolding closes_ok_def by (metis prod.collapse)
  have cc: "\<And>c w. \<exists>w'. close_conn E c w = (Inr (), w')"
    using assms unfolding closes_ok_def by (metis prod.collapse)
  show "fst (release E fr m s) = Inr ()"
  proof (cases "stmt_var fr")
    case None
    show ?thesis
    proof (cases "conn_var fr")
      case None
      with \<open>stmt_var fr = None\<close> show ?thesis
        by (simp add: release_def pbind_def preturn_def print_def)
    next
      case (Some c)
      obtain w' where "close_conn E c (world s) = (Inr (), w')" using cc by blast
      with Some \<open>stmt_var fr = None\<close> show ?thesis
        by (simp add: release_def pbind_def preturn_def print_def extern_def)
    qed
  next
    case (Some st)
    obtain w1 where w1: "close_stmt E st (world s) = (Inr (), w1)" using cs by blast
    show ?thesis
    proof (cases "conn_var fr")
      case None
      with Some w1 show ?thesis
        by (simp add: release_def pbind_def preturn_def print_def extern_def)
    next
      case (Some c)
      obtain w' where "close_conn E c w1 = (Inr (), w')" using cc by blast
      with Some \<open>stmt_var fr = Some st\<close> w1 show ?thesis
        by (simp add: release_def pbind_def preturn_def print_def extern_def)
    qed
  qed
  show "trace (snd (release E fr m s)) = trace s @ release_events fr @ [Print m]"
  proof (cases "stmt_var fr")
    case None
    show ?thesis
    proof (cases "conn_var fr")
      case None
      with \<open>stmt_var fr = None\<close> show ?thesis
        by (simp add: release_def pbind_def preturn_def print_def release_events_def)
    next
      case (Some c)
      obtain w' where "close_conn E c (world s) = (Inr (), w')" using cc by blast
      with Some \<open>stmt_var fr = None\<close> show ?thesis
        by (simp add: release_def pbind_def preturn_def print_def extern_def release_events_def
              raised_def)
    qed
  next
    case (Some st)
    obtain w1 where w1: "close_stmt E st (world s) = (Inr (), w1)" using cs by blast
    show ?thesis
    proof (cases "conn_var fr")
      case None
      with Some w1 show ?thesis
        by (simp add: release_def pbind_def preturn_def print_def extern_def release_events_def
              raised_def)
    next
      case (Some c)
      obtain w' where "close_conn E c w1 = (Inr (), w')" using cc by blast
      with Some \<open>stmt_var fr = Some st\<close> w1 show ?thesis
        by (simp add: release_def pbind_def preturn_def print_def extern_def release_events_def
              raised_def)
    qed
  qed
qed

lemma except_finally_run:
  assumes "closes_ok E"
  shows "fst (except_finally E on_error completed pending fr s) =
           (case pending of None \<Rightarrow> Inr () | Some e \<Rightarrow> Inl e)"
    and "trace (snd (except_finally E on_error completed pending fr s)) =
           trace s @ (case pending of None \<Rightarrow> [] | Some e \<Rightarrow> [Print (on_error e)]) @
           release_events fr @ [Print completed]"
proof -
  define s1 where "s1 = (case pending of None \<Rightarrow> s | Some e \<Rightarrow> snd (print (on_error e) s))"
  have t1: "trace s1 = trace s @ (case pending of None \<Rightarrow> [] | Some e \<Rightarrow> [Print (on_error e)])"
    by (simp add: s1_def print_def split: option.splits)
  obtain r s2 where rel: "release E fr completed s1 = (r, s2)" by (cases "release E fr completed s1")
  from release_run[OF assms, of fr completed s1] rel
  have r: "r = Inr ()" and t2: "trace s2 = trace s1 @ release_events fr @ [Print completed]"
    by simp_all
  have ef: "except_finally E on_error completed pending fr s =
              (case pending of None \<Rightarrow> (Inr (), s2) | Some e \<Rightarrow> (Inl e, s2))"
    using rel r by (simp add: except_finally_def s1_def[symmetric] Let_def)
  show "fst (except_finally E on_error completed pending fr s) =
           (case pending of None \<Rightarrow> Inr () | Some e \<Rightarrow> Inl e)"
    by (simp add: ef split: option.splits)
  show "trace (snd (except_finally E on_error completed pending fr s)) =
           trace s @ (case pending of None \<Rightarrow> [] | Some e \<Rightarrow> [Print (on_error e)]) @
           release_events fr @ [Print completed]"
    by (simp add: ef t1 t2 split: option.splits)
qed

subsection \<open>The events of a sequence\<close>

lemma entered_simps [simp]:
  "entered [] = []"
  "entered (Enter f # evs) = f # entered evs"
  "entered (Call c r # evs) = entered evs"
  "entered (Print m # evs) = entered evs"
  "entered (xs @ ys) = entered xs @ entered ys"
  by (simp_all add: entered_def)

lemma new_events_append:
  "trace (snd (p s)) = trace s @ evs \<Longrightarrow> new_events p s = evs"
  by (simp add: new_events_def)

lemma new_events_pbind:
  assumes m: "emits (\<lambda>_. True) m" and f: "\<And>x. emits (\<lambda>_. True) (f x)"
  shows "new_events (pbind m f) s =
         new_events m s @
         (case fst (m s) of Inl e \<Rightarrow> [] | Inr x \<Rightarrow> new_events (f x) (snd (m s)))"
proof (cases "m s")
  case (Pair r s')
  note m1 = emitsD(1)[OF m, of s]
  show ?thesis
  proof (cases r)
    case (Inl e)
    with Pair m1 show ?thesis by (simp add: pbind_def new_events_def)
  next
    case (Inr x)
    have "trace (snd (f x s')) = trace s' @ new_events (f x) s'" using emitsD(1)[OF f] .
    with Pair Inr m1 have "trace (snd (pbind m f s)) = trace s @ new_events m s @ new_events (f x) s'"
      by (simp add: pbind_def)
    then have "new_events (pbind m f) s = new_events m s @ new_events (f x) s'"
      by (rule new_events_append)
    with Pair Inr show ?thesis by simp
  qed
qed

lemma new_events_prims [simp]:
  "new_events (enter g) s = [Enter g]"
  "new_events (print m) s = [Print m]"
  "new_events (preturn x) s = []"
  "new_events (extern c f) s = [Call c (raised (fst (f (world s))))]"
  by (simp_all add: new_events_def enter_def print_def preturn_def extern_def split: prod.splits)

lemma prims_result [simp]:
  "fst (enter g s) = Inr ()" "world (snd (enter g s)) = world s"
  "fst (print m s) = Inr ()" "world (snd (print m s)) = world s"
  "fst (preturn x s) = Inr x" "snd (preturn x s) = s"
  "fst (extern c f s) = fst (f (world s))" "world (snd (extern c f s)) = snd (f (world s))"
  by (simp_all add: enter_def print_def preturn_def extern_def split: prod.splits)

lemma pbind_result:
  "fst (pbind m f s) = (case fst (m s) of Inl e \<Rightarrow> Inl e | Inr x \<Rightarrow> fst (f x (snd (m s))))"
  "snd (pbind m f s) = (case fst (m s) of Inl e \<Rightarrow> snd (m s) | Inr x \<Rightarrow> snd (f x (snd (m s))))"
  by (cases "m s"; simp add: pbind_def split: sum.splits)+

lemma emits_if [simp]: "emits P p \<Longrightarrow> emits P q \<Longrightarrow> emits P (if b then p else q)"
  by simp

lemma emits_run_commands [simp]:
  "(\<And>c r. \<not> is_close c \<Longrightarrow> P (Call c r)) \<Longrightarrow> (\<And>m. m \<noteq> Skipping_statistics \<Longrightarrow> P (Print m)) \<Longrightarrow> emits P (run_commands E st cmds)"
  by (induction cmds) simp_all

lemma emits_get_jdbc_connection [simp]:
  "(\<And>c r. \<not> is_close c \<Longrightarrow> P (Call c r)) \<Longrightarrow> P (Enter Get_jdbc_connection) \<Longrightarrow>
   emits P (get_jdbc_connection E config)"
  by (simp add: get_jdbc_connection_def)

lemma emits_table_exists [simp]:
  "(\<And>c r. \<not> is_close c \<Longrightarrow> P (Call c r)) \<Longrightarrow> P (Enter Table_exists) \<Longrightarrow> emits P (table_exists E st n)"
  by (simp add: table_exists_def)

lemma emits_drop_external_table [simp]:
  "(\<And>c r. \<not> is_close c \<Longrightarrow> P (Call c r)) \<Longrightarrow> (\<And>m. m \<noteq> Skipping_statistics \<Longrightarrow> P (Print m)) \<Longrightarrow> P (Enter Drop_external_table) \<Longrightarrow>
   emits P (drop_external_table E st n)"
  by (simp add: drop_external_table_def)

lemma emits_delete_adls_path [simp]:
  "(\<And>c r. \<not> is_close c \<Longrightarrow> P (Call c r)) \<Longrightarrow> (\<And>m. m \<noteq> Skipping_statistics \<Longrightarrow> P (Print m)) \<Longrightarrow> P (Enter Delete_adls_path) \<Longrightarrow>
   emits P (delete_adls_path E p)"
  by (simp add: delete_adls_path_def)

lemma emits_create_external_table [simp]:
  "(\<And>c r. \<not> is_close c \<Longrightarrow> P (Call c r)) \<Longrightarrow> (\<And>m. m \<noteq> Skipping_statistics \<Longrightarrow> P (Print m)) \<Longrightarrow> P (Enter Create_external_table) \<Longrightarrow>
   emits P (create_external_table E cetas st config)"
  by (simp add: create_external_table_def Let_def)

subsection \<open>The steps of the refresh\<close>

lemma table_exists_run:
  assumes q: "executeQuery E st (table_exists_sql n) (world s) = (Inr rows, w1)"
  shows "table_exists E st n s =
         (Inr (rows \<noteq> []),
          \<lparr>world = w1,
           trace = trace s @ [Enter Table_exists, Call (ExecuteQuery st (table_exists_sql n)) None]\<rparr>)"
  using q by (simp add: table_exists_def pbind_def enter_def extern_def preturn_def raised_def)







lemma emits_cong_snd: "(\<And>s. snd (p s) = snd (q s)) \<Longrightarrow> emits P q \<Longrightarrow> emits P p"
  by (simp add: emits_def)

lemma emits_release [simp]:
  "(\<And>c r. is_close c \<Longrightarrow> P (Call c r)) \<Longrightarrow> P (Print m) \<Longrightarrow> emits P (release E fr m)"
  by (simp add: release_def split: option.splits)

lemma emits_except_finally [simp]:
  assumes "\<And>c r. is_close c \<Longrightarrow> P (Call c r)" and "\<And>e. P (Print (on_error e))"
    and "P (Print completed)"
  shows "emits P (except_finally E on_error completed pending fr)"
proof (rule emits_cong_snd)
  show "emits P (pbind (case pending of None \<Rightarrow> preturn () | Some e \<Rightarrow> print (on_error e))
                       (\<lambda>_. release E fr completed))"
    using assms by (simp split: option.splits)
  fix s
  show "snd (except_finally E on_error completed pending fr s) =
        snd (pbind (case pending of None \<Rightarrow> preturn () | Some e \<Rightarrow> print (on_error e))
                   (\<lambda>_. release E fr completed) s)"
    by (simp add: except_finally_def pbind_def preturn_def print_def Let_def
          split: option.splits prod.splits sum.splits)
qed

lemma emits_statistics_steps [simp]:
  "(\<And>c r. \<not> is_close c \<Longrightarrow> P (Call c r)) \<Longrightarrow> (\<And>m. m \<noteq> Skipping_statistics \<Longrightarrow> P (Print m)) \<Longrightarrow> emits P (statistics_steps E config st)"
  by (simp add: statistics_steps_def Let_def)

lemma emits_statistics_try [simp]:
  assumes "\<And>c r. \<not> is_close c \<Longrightarrow> P (Call c r)"
    and "\<And>m. m \<noteq> Skipping_statistics \<Longrightarrow> P (Print m)" and "P (Enter Get_jdbc_connection)"
  shows "emits P (statistics_try E config)"
proof (rule emits_cong_snd)
  show "emits P (pbind (get_jdbc_connection E config) (\<lambda>c.
                 pbind (extern (CreateStatement c) (createStatement E c)) (\<lambda>st.
                 statistics_steps E config st)))"
    using assms by simp
  fix s
  show "snd (statistics_try E config s) =
        snd (pbind (get_jdbc_connection E config) (\<lambda>c.
             pbind (extern (CreateStatement c) (createStatement E c)) (\<lambda>st.
             statistics_steps E config st)) s)"
    by (simp add: statistics_try_def pbind_def split: prod.splits sum.splits)
qed

lemma emits_create_statistics [simp]:
  assumes "\<And>c r. P (Call c r)" and "\<And>m. m \<noteq> Skipping_statistics \<Longrightarrow> P (Print m)"
    and "P (Enter Get_jdbc_connection)"
    and "P (Enter Create_statistics_for_external_table)"
  shows "emits P (create_statistics_for_external_table E config)"
proof (rule emits_cong_snd)
  show "emits P (pbind (enter Create_statistics_for_external_table) (\<lambda>_.
                 pbind (\<lambda>s. (Inr (fst (statistics_try E config s)), snd (statistics_try E config s)))
                   (\<lambda>(pending, fr). except_finally E Statistics_error Statistics_completed pending fr)))"
    using assms
    by (intro emits_pbind emits_enter)
       (auto intro!: emits_cong_snd[OF _ emits_statistics_try[of P E config]] simp: split_def)
  fix s
  show "snd (create_statistics_for_external_table E config s) =
        snd (pbind (enter Create_statistics_for_external_table) (\<lambda>_.
             pbind (\<lambda>s. (Inr (fst (statistics_try E config s)), snd (statistics_try E config s)))
               (\<lambda>(pending, fr). except_finally E Statistics_error Statistics_completed pending fr)) s)"
    by (simp add: create_statistics_for_external_table_def pbind_def enter_def
          split: prod.splits sum.splits)
qed

lemma connected_trace:
  assumes "connected E config s c st s2"
  shows "\<exists>token. trace s2 = trace s @
           [Enter Get_jdbc_connection, Call (GetToken ''DW'') None,
            Call (GetConnection (jdbc_url config) token) None, Call (CreateStatement c) None]"
  using assms
  by (auto simp: connected_def get_jdbc_connection_def pbind_def enter_def extern_def raised_def
        split: prod.splits sum.splits)

lemma refresh_try_connected:
  assumes "connected E config s c st s2"
  shows "refresh_try E cetas config s =
         ((raised (fst (refresh_steps E cetas config st s2)),
           \<lparr>conn_var = Some c, stmt_var = Some st\<rparr>,
           (case fst (refresh_steps E cetas config st s2) of Inl e \<Rightarrow> False | Inr u \<Rightarrow> True)),
          snd (refresh_steps E cetas config st s2))"
  using assms
  by (auto simp: connected_def refresh_try_def raised_def split: prod.splits sum.splits)




subsection \<open>A call that raises ends the try body\<close>

lemma strictD:
  assumes "strict p" and "Call k (Some e) \<in> set (new_events p s)"
  shows "fst (p s) = Inl e" and "last (new_events p s) = Call k (Some e)"
  using assms unfolding strict_def by blast+

lemma strict_grows: "strict p \<Longrightarrow> emits (\<lambda>_. True) p"
  by (simp add: strict_def)

lemma strict_prims [simp]:
  "strict (enter g)" "strict (print m)" "strict (preturn x)" "strict (extern c f)"
  by (auto simp: strict_def raised_def split: sum.splits)

lemma strict_pbind [simp]:
  assumes m: "strict m" and f: "\<And>x. strict (f x)"
  shows "strict (pbind m f)"
  unfolding strict_def
proof (rule conjI)
  show "emits (\<lambda>_. True) (pbind m f)"
    using m f by (simp add: strict_grows)
next
  have "fst (pbind m f s) = Inl e \<and> last (new_events (pbind m f) s) = Call k (Some e)"
    if a: "Call k (Some e) \<in> set (new_events (pbind m f) s)" for s k e
  proof -
  note ne = new_events_pbind[OF strict_grows[OF m] strict_grows[OF f], where s=s]
  show "fst (pbind m f s) = Inl e \<and> last (new_events (pbind m f) s) = Call k (Some e)"
  proof (cases "fst (m s)")
    case (Inl e')
    with a ne have in_m: "Call k (Some e) \<in> set (new_events m s)" by simp
    from strictD[OF m in_m] Inl ne show ?thesis by (simp add: pbind_result)
  next
    case (Inr x)
    have not_m: "Call k (Some e) \<notin> set (new_events m s)"
    proof
      assume "Call k (Some e) \<in> set (new_events m s)"
      from strictD(1)[OF m this] Inr show False by simp
    qed
    with a ne Inr have in_f: "Call k (Some e) \<in> set (new_events (f x) (snd (m s)))" by simp
    then have "new_events (f x) (snd (m s)) \<noteq> []" by auto
    with strictD[OF f in_f] Inr ne show ?thesis by (simp add: pbind_result)
  qed
  qed
  then show "\<forall>s k e. Call k (Some e) \<in> set (new_events (pbind m f) s) \<longrightarrow>
               fst (pbind m f s) = Inl e \<and> last (new_events (pbind m f) s) = Call k (Some e)"
    by blast
qed

lemma strict_if [simp]: "strict p \<Longrightarrow> strict q \<Longrightarrow> strict (if b then p else q)"
  by simp

lemma strict_refresh_steps [simp]: "strict (refresh_steps E cetas config st)"
  by (simp add: refresh_steps_def table_exists_def drop_external_table_def delete_adls_path_def
        create_external_table_def Let_def)

lemma strict_refresh_body [simp]: "strict (refresh_body E cetas config)"
  by (simp add: refresh_body_def get_jdbc_connection_def)

lemma refresh_try_body:
  "snd (refresh_try E cetas config s) = snd (refresh_body E cetas config s)"
  "fst (fst (refresh_try E cetas config s)) = raised (fst (refresh_body E cetas config s))"
  "snd (snd (fst (refresh_try E cetas config s))) = (fst (refresh_body E cetas config s) = Inr ())"
  by (simp_all add: refresh_try_def refresh_body_def pbind_def raised_def
        split: prod.splits sum.splits)

lemma new_events_refresh_try:
  "new_events (refresh_try E cetas config) s = new_events (refresh_body E cetas config) s"
  by (simp add: new_events_def refresh_try_body)

lemma refresh_try_pending:
  assumes "Call k (Some e) \<in> set (new_events (refresh_try E cetas config) s)"
  shows "fst (fst (refresh_try E cetas config s)) = Some e"
    and "last (new_events (refresh_try E cetas config) s) = Call k (Some e)"
  using strictD[OF strict_refresh_body, of k e E cetas config s] assms
  by (simp_all add: new_events_refresh_try refresh_try_body raised_def)

subsection \<open>What the closes leave unchanged\<close>

lemma release_obs:
  assumes "\<And>st w. obs (snd (close_stmt E st w)) = obs w"
      and "\<And>c w. obs (snd (close_conn E c w)) = obs w"
  shows "obs (world (snd (release E fr m s))) = obs (world s)"
proof -
  have a: "obs (world (snd ((case stmt_var fr of None \<Rightarrow> preturn ()
             | Some st \<Rightarrow> extern (CloseStatement st) (close_stmt E st)) s))) = obs (world s)" for s
    using assms(1) by (simp split: option.splits)
  have b: "obs (world (snd ((case conn_var fr of None \<Rightarrow> preturn ()
             | Some c \<Rightarrow> extern (CloseConnection c) (close_conn E c)) s))) = obs (world s)" for s
    using assms(2) by (simp split: option.splits)
  show ?thesis
    unfolding release_def
    by (simp add: pbind_result a b split: sum.splits)
qed

lemma except_finally_obs:
  assumes "\<And>st w. obs (snd (close_stmt E st w)) = obs w"
      and "\<And>c w. obs (snd (close_conn E c w)) = obs w"
  shows "obs (world (snd (except_finally E on_error completed pending fr s))) = obs (world s)"
proof -
  let ?s1 = "case pending of None \<Rightarrow> s | Some e \<Rightarrow> snd (print (on_error e) s)"
  have "snd (except_finally E on_error completed pending fr s) = snd (release E fr completed ?s1)"
    by (simp add: except_finally_def Let_def split: prod.splits sum.splits option.splits)
  moreover have "obs (world ?s1) = obs (world s)" by (simp split: option.splits)
  ultimately show ?thesis using release_obs[of obs E fr completed ?s1, OF assms] by simp
qed

subsection \<open>The statistics function, once connected\<close>

lemma statistics_try_connected:
  assumes "connected E config s c st s2"
  shows "statistics_try E config s =
         ((raised (fst (statistics_steps E config st s2)),
           \<lparr>conn_var = Some c, stmt_var = Some st\<rparr>),
          snd (statistics_steps E config st s2))"
  using assms
  by (auto simp: connected_def statistics_try_def split: prod.splits sum.splits)

lemma create_statistics_run:
  assumes conn: "connected E config (snd (enter Create_statistics_for_external_table s)) c st s2"
      and q: "executeQuery E st (stats_sql (last_part CHR ''.'' (external_table config))) (world s2)
                = (Inr commands, w3)"
      and cl: "closes_ok E"
  shows "fst (create_statistics_for_external_table E config s) = Inr ()"
    and "trace (snd (create_statistics_for_external_table E config s)) =
         trace s2 @
         [Call (ExecuteQuery st (stats_sql (last_part CHR ''.'' (external_table config)))) None] @
         (if commands = [] then [Print (No_statistics (last_part CHR ''.'' (external_table config)))]
          else Print (Creating_statistics (length commands)
                        (last_part CHR ''.'' (external_table config))) #
               concat (map2 (command_events st) commands (outcomes E st commands w3))) @
         [Call (CloseStatement st) None, Call (CloseConnection c) None, Print Statistics_completed]"
proof -
  let ?fr = "\<lparr>conn_var = Some c, stmt_var = Some st\<rparr>"
  let ?s3 = "snd (statistics_steps E config st s2)"
  note st = statistics_steps_run[OF q]
  have cs: "create_statistics_for_external_table E config s =
            except_finally E Statistics_error Statistics_completed None ?fr ?s3"
    by (simp add: create_statistics_for_external_table_def statistics_try_connected[OF conn]
          st(1) raised_def)
  show "fst (create_statistics_for_external_table E config s) = Inr ()"
    by (simp add: cs except_finally_run(1)[OF cl])
  show "trace (snd (create_statistics_for_external_table E config s)) =
         trace s2 @
         [Call (ExecuteQuery st (stats_sql (last_part CHR ''.'' (external_table config)))) None] @
         (if commands = [] then [Print (No_statistics (last_part CHR ''.'' (external_table config)))]
          else Print (Creating_statistics (length commands)
                        (last_part CHR ''.'' (external_table config))) #
               concat (map2 (command_events st) commands (outcomes E st commands w3))) @
         [Call (CloseStatement st) None, Call (CloseConnection c) None, Print Statistics_completed]"
    by (simp add: cs except_finally_run(2)[OF cl] st(2) release_events_def)
qed

subsection \<open>The drop follows the existence query\<close>


subsection \<open>The protected part of the refresh\<close>

lemma emits_refresh_steps [simp]:
  assumes "\<And>c r. \<not> is_close c \<Longrightarrow> P (Call c r)"
    and "\<And>m. m \<noteq> Skipping_statistics \<Longrightarrow> P (Print m)"
    and "P (Enter Table_exists)" and "P (Enter Drop_external_table)"
    and "P (Enter Delete_adls_path)" and "P (Enter Create_external_table)"
  shows "emits P (refresh_steps E cetas config st)"
  using assms by (simp add: refresh_steps_def)

lemma emits_refresh_body [simp]:
  assumes "\<And>c r. \<not> is_close c \<Longrightarrow> P (Call c r)"
    and "\<And>m. m \<noteq> Skipping_statistics \<Longrightarrow> P (Print m)"
    and "P (Enter Get_jdbc_connection)"
    and "P (Enter Table_exists)" and "P (Enter Drop_external_table)"
    and "P (Enter Delete_adls_path)" and "P (Enter Create_external_table)"
  shows "emits P (refresh_body E cetas config)"
  using assms by (simp add: refresh_body_def)

lemma refresh_try_conn:
  assumes "get_jdbc_connection E config s = (Inr c, s1)"
  shows "conn_var (fst (snd (fst (refresh_try E cetas config s)))) = Some c"
    and "release_events (fst (snd (fst (refresh_try E cetas config s)))) =
         (case fst (createStatement E c (world s1)) of Inl e \<Rightarrow> []
          | Inr st \<Rightarrow> [Call (CloseStatement st) None]) @ [Call (CloseConnection c) None]"
  using assms
  by (auto simp: refresh_try_def release_events_def extern_def split: prod.splits sum.splits)

lemma refresh_protected_run:
  assumes cl: "closes_ok E"
  shows "fst (refresh_protected E cetas config s) =
           (case fst (fst (refresh_try E cetas config (snd (enter Refresh_external_table s)))) of
              None \<Rightarrow> Inr True | Some e \<Rightarrow> Inl e)"
    and "new_events (refresh_protected E cetas config) s =
           Enter Refresh_external_table #
           new_events (refresh_try E cetas config) (snd (enter Refresh_external_table s)) @
           (case fst (fst (refresh_try E cetas config (snd (enter Refresh_external_table s)))) of
              None \<Rightarrow> [] | Some e \<Rightarrow> [Print (Refresh_error e)]) @
           release_events (fst (snd (fst (refresh_try E cetas config
                                            (snd (enter Refresh_external_table s)))))) @
           [Print Refresh_completed]"
proof -
  let ?s' = "snd (enter Refresh_external_table s)"
  obtain pending fr created s1 where
    t: "refresh_try E cetas config ?s' = ((pending, fr, created), s1)"
    by (cases "refresh_try E cetas config ?s'") auto
  have cr: "pending = None \<Longrightarrow> created"
    using t refresh_try_body(2,3)[of E cetas config ?s']
    by (cases "fst (refresh_body E cetas config ?s')") (simp_all add: raised_def)
  have t1: "trace s1 = trace ?s' @ new_events (refresh_try E cetas config) ?s'"
    using emitsD(1)[of "\<lambda>_. True" "refresh_body E cetas config" ?s'] t
    by (simp add: new_events_refresh_try refresh_try_body(1)[symmetric])
  note ef = except_finally_run[OF cl, of Refresh_error Refresh_completed pending fr s1]
  obtain r s2 where e: "except_finally E Refresh_error Refresh_completed pending fr s1 = (r, s2)"
    by (cases "except_finally E Refresh_error Refresh_completed pending fr s1")
  show "fst (refresh_protected E cetas config s) =
           (case fst (fst (refresh_try E cetas config ?s')) of None \<Rightarrow> Inr True | Some e \<Rightarrow> Inl e)"
    using ef(1) e t cr by (auto simp: refresh_protected_def split: option.splits sum.splits)
  have "trace (snd (refresh_protected E cetas config s)) = trace s2"
    using e t by (simp add: refresh_protected_def split: sum.splits)
  also have "\<dots> = trace s @ Enter Refresh_external_table #
           new_events (refresh_try E cetas config) ?s' @
           (case pending of None \<Rightarrow> [] | Some e \<Rightarrow> [Print (Refresh_error e)]) @
           release_events fr @ [Print Refresh_completed]"
    using ef(2) e t1 by (simp add: enter_def)
  finally show "new_events (refresh_protected E cetas config) s =
           Enter Refresh_external_table #
           new_events (refresh_try E cetas config) ?s' @
           (case fst (fst (refresh_try E cetas config ?s')) of
              None \<Rightarrow> [] | Some e \<Rightarrow> [Print (Refresh_error e)]) @
           release_events (fst (snd (fst (refresh_try E cetas config ?s')))) @
           [Print Refresh_completed]"
    using t by (intro new_events_append) simp
qed

lemma create_statistics_prefix:
  "\<exists>r rest. new_events (create_statistics_for_external_table E config) s =
     Enter Create_statistics_for_external_table # Enter Get_jdbc_connection #
     Call (GetToken ''DW'') r # rest \<and>
     (r = None \<longrightarrow>
        (\<exists>token r2 rest2. rest = Call (GetConnection (jdbc_url config) token) r2 # rest2))"
proof -
  let ?s' = "snd (enter Create_statistics_for_external_table s)"
  let ?P = "\<lambda>_::event. True"
  obtain rt wt where tk: "getToken E ''DW'' (world s) = (rt, wt)" by (cases "getToken E ''DW'' (world s)")
  let ?st = "\<lparr>world = wt, trace = trace s @ [Enter Create_statistics_for_external_table,
               Enter Get_jdbc_connection, Call (GetToken ''DW'') (raised rt)]\<rparr>"
  have a: "\<exists>evs. trace (snd (statistics_try E config ?s')) = trace ?st @ evs \<and>
             (raised rt = None \<longrightarrow>
                (\<exists>token r2 rest2. evs = Call (GetConnection (jdbc_url config) token) r2 # rest2))"
  proof (cases rt)
    case (Inl e)
    with tk show ?thesis
      by (simp add: statistics_try_def get_jdbc_connection_def pbind_def enter_def extern_def
            raised_def)
  next
    case (Inr token)
    obtain rc wc where gc: "getConnection E (jdbc_url config) token wt = (rc, wc)"
      by (cases "getConnection E (jdbc_url config) token wt")
    let ?sc = "\<lparr>world = wc, trace = trace ?st @
                 [Call (GetConnection (jdbc_url config) token) (raised rc)]\<rparr>"
    show ?thesis
    proof (cases rc)
      case (Inl e)
      with tk Inr gc have "trace (snd (statistics_try E config ?s')) = trace ?sc"
        by (simp add: statistics_try_def get_jdbc_connection_def pbind_def enter_def extern_def)
      then show ?thesis by simp
    next
      case (Inr c)
      let ?rest = "pbind (extern (CreateStatement c) (createStatement E c)) (\<lambda>st.
                   statistics_steps E config st)"
      have "snd (statistics_try E config ?s') = snd (?rest ?sc)"
        using tk \<open>rt = Inr token\<close> gc Inr
        by (simp add: statistics_try_def get_jdbc_connection_def pbind_def enter_def extern_def
              split: prod.splits sum.splits)
      moreover have "emits ?P ?rest" by simp
      ultimately obtain evs where
        "trace (snd (statistics_try E config ?s')) = trace ?sc @ evs"
        using emitsD(1)[of ?P ?rest ?sc] by auto
      then show ?thesis by simp
    qed
  qed
  then obtain evs where e1: "trace (snd (statistics_try E config ?s')) = trace ?st @ evs"
    and e1c: "raised rt = None \<longrightarrow>
                (\<exists>token r2 rest2. evs = Call (GetConnection (jdbc_url config) token) r2 # rest2)"
    by (elim exE conjE) (rule that)
  obtain pending fr s1 where t: "statistics_try E config ?s' = ((pending, fr), s1)"
    by (cases "statistics_try E config ?s'") auto
  have "emits ?P (except_finally E Statistics_error Statistics_completed pending fr)" by simp
  from emitsD(1)[OF this, of s1] obtain evs2 where
    "trace (snd (create_statistics_for_external_table E config s)) = trace s1 @ evs2"
    using t by (auto simp: create_statistics_for_external_table_def)
  with e1 t have "trace (snd (create_statistics_for_external_table E config s)) =
     trace s @ (Enter Create_statistics_for_external_table # Enter Get_jdbc_connection #
                Call (GetToken ''DW'') (raised rt) # (evs @ evs2))"
    by simp
  then have "new_events (create_statistics_for_external_table E config) s =
     Enter Create_statistics_for_external_table # Enter Get_jdbc_connection #
     Call (GetToken ''DW'') (raised rt) # (evs @ evs2)"
    by (rule new_events_append)
  with e1c show ?thesis by auto
qed

lemma connection_released_when_closes_return:
  assumes cl: "closes_ok E"
      and gc: "get_jdbc_connection E config (snd (enter Refresh_external_table s)) = (Inr c, s1)"
  shows "\<exists>pre.
           new_events (refresh_external_table E cetas config) s =
             pre @ [Call (CloseConnection c) None, Print Refresh_completed] @
             (case fst (fst (refresh_try E cetas config (snd (enter Refresh_external_table s)))) of
                Some e \<Rightarrow> []
              | None \<Rightarrow> new_events (create_statistics_for_external_table E config)
                          (snd (refresh_protected E cetas config s))) \<and>
           list_all (\<lambda>ev. (\<forall>c' r. ev \<noteq> Call (CloseConnection c') r) \<and>
                          ev \<noteq> Enter Create_statistics_for_external_table) pre"
proof -
  let ?s' = "snd (enter Refresh_external_table s)"
  let ?P = "\<lambda>ev. (\<forall>c' r. ev \<noteq> Call (CloseConnection c') r) \<and>
                  ev \<noteq> Enter Create_statistics_for_external_table"
  let ?pending = "fst (fst (refresh_try E cetas config ?s'))"
  let ?tevs = "new_events (refresh_try E cetas config) ?s'"
  let ?err = "case ?pending of None \<Rightarrow> [] | Some e \<Rightarrow> [Print (Refresh_error e)]"
  let ?cs = "case fst (createStatement E c (world s1)) of Inl e \<Rightarrow> []
             | Inr st \<Rightarrow> [Call (CloseStatement st) None]"
  let ?pre = "Enter Refresh_external_table # ?tevs @ ?err @ ?cs"
  have "emits ?P (refresh_body E cetas config)"
    by (rule emits_refresh_body) (auto elim: is_close.elims)
  from emitsD(2)[OF this, of ?s'] have p_try: "list_all ?P ?tevs"
    by (simp add: new_events_refresh_try)
  have p_pre: "list_all ?P ?pre"
    using p_try by (simp split: option.splits sum.splits)
  note pr = refresh_protected_run[OF cl, of cetas config s]
  have pe: "new_events (refresh_protected E cetas config) s =
            ?pre @ [Call (CloseConnection c) None, Print Refresh_completed]"
    by (simp add: pr(2) refresh_try_conn(2)[OF gc])
  have tp: "trace (snd (refresh_protected E cetas config s)) =
            trace s @ ?pre @ [Call (CloseConnection c) None, Print Refresh_completed]"
  proof -
    have "emits (\<lambda>_. True) (refresh_protected E cetas config)"
    proof (rule emits_cong_snd)
      show "emits (\<lambda>_. True) (pbind (enter Refresh_external_table) (\<lambda>_.
              pbind (\<lambda>s. (Inr (fst (refresh_try E cetas config s)), snd (refresh_try E cetas config s)))
                (\<lambda>(pending, fr, created).
                   except_finally E Refresh_error Refresh_completed pending fr)))"
        by (intro emits_pbind emits_enter)
           (auto intro!: emits_cong_snd[OF _ emits_refresh_body[of "\<lambda>_. True" E cetas config]]
                 simp: split_def refresh_try_body)
      fix s
      show "snd (refresh_protected E cetas config s) =
            snd (pbind (enter Refresh_external_table) (\<lambda>_.
              pbind (\<lambda>s. (Inr (fst (refresh_try E cetas config s)), snd (refresh_try E cetas config s)))
                (\<lambda>(pending, fr, created).
                   except_finally E Refresh_error Refresh_completed pending fr)) s)"
        by (simp add: refresh_protected_def pbind_def enter_def split: prod.splits sum.splits)
    qed
    from emitsD(1)[OF this, of s] pe show ?thesis by simp
  qed
  show ?thesis
  proof (cases ?pending)
    case (Some e)
    with pr(1) have "fst (refresh_protected E cetas config s) = Inl e" by simp
    then have "snd (refresh_external_table E cetas config s) =
               snd (refresh_protected E cetas config s)"
      by (simp add: refresh_external_table_def pbind_result)
    with tp have "new_events (refresh_external_table E cetas config) s =
                  ?pre @ [Call (CloseConnection c) None, Print Refresh_completed] @ []"
      by (intro new_events_append) simp
    with p_pre Some show ?thesis by (intro exI[of _ ?pre]) simp
  next
    case None
    with pr(1) have "fst (refresh_protected E cetas config s) = Inr True" by simp
    then have fin: "snd (refresh_external_table E cetas config s) =
               snd (create_statistics_for_external_table E config
                      (snd (refresh_protected E cetas config s)))"
      by (simp add: refresh_external_table_def pbind_result)
    let ?s4 = "snd (refresh_protected E cetas config s)"
    have "emits (\<lambda>_. True) (create_statistics_for_external_table E config)" by simp
    from emitsD(1)[OF this, of ?s4] fin tp
    have "new_events (refresh_external_table E cetas config) s =
          ?pre @ [Call (CloseConnection c) None, Print Refresh_completed] @
          new_events (create_statistics_for_external_table E config) ?s4"
      by (intro new_events_append) simp
    with p_pre None show ?thesis by (intro exI[of _ ?pre]) simp
  qed
qed

lemma errors_propagate_when_closes_return:
  fixes obs :: "'w \<Rightarrow> 'o"
  assumes cl: "closes_ok E"
      and fr1: "\<And>st w. obs (snd (close_stmt E st w)) = obs w"
      and fr2: "\<And>c w. obs (snd (close_conn E c w)) = obs w"
      and err: "Call k (Some e) \<in> set (new_events (refresh_try E cetas config)
                                          (snd (enter Refresh_external_table s)))"
  shows "fst (refresh_external_table E cetas config s) = Inl e \<and>
         last (new_events (refresh_try E cetas config) (snd (enter Refresh_external_table s))) =
           Call k (Some e) \<and>
         new_events (refresh_external_table E cetas config) s =
           Enter Refresh_external_table #
           new_events (refresh_try E cetas config) (snd (enter Refresh_external_table s)) @
           [Print (Refresh_error e)] @
           release_events (fst (snd (fst (refresh_try E cetas config
                                            (snd (enter Refresh_external_table s)))))) @
           [Print Refresh_completed] \<and>
         obs (world (snd (refresh_external_table E cetas config s))) =
           obs (world (snd (refresh_try E cetas config (snd (enter Refresh_external_table s)))))"
proof -
  let ?s' = "snd (enter Refresh_external_table s)"
  note p = refresh_try_pending[OF err]
  note pr = refresh_protected_run[OF cl, of cetas config s]
  from pr(1) p(1) have r: "fst (refresh_protected E cetas config s) = Inl e" by simp
  then have same: "refresh_external_table E cetas config s = refresh_protected_as_unit"
    if "refresh_protected_as_unit = (Inl e, snd (refresh_protected E cetas config s))"
    for refresh_protected_as_unit
    using that by (cases "refresh_protected E cetas config s")
                  (simp add: refresh_external_table_def pbind_def)
  have res: "refresh_external_table E cetas config s = (Inl e, snd (refresh_protected E cetas config s))"
    by (rule same) simp
  have ev: "new_events (refresh_external_table E cetas config) s =
            new_events (refresh_protected E cetas config) s"
    by (simp add: new_events_def res)
  obtain pending fr created s1 where
    t: "refresh_try E cetas config ?s' = ((pending, fr, created), s1)"
    by (cases "refresh_try E cetas config ?s'") auto
  have "snd (refresh_protected E cetas config s) =
        snd (except_finally E Refresh_error Refresh_completed pending fr s1)"
    using t by (simp add: refresh_protected_def split: prod.splits sum.splits)
  then have ob: "obs (world (snd (refresh_protected E cetas config s))) = obs (world s1)"
    using except_finally_obs[of obs E, OF fr1 fr2] by simp
  show ?thesis
    using p pr(2) ob t by (simp add: res ev)
qed

subsection \<open>The statistics query without duplicated statistics\<close>

lemma left_join_single:
  assumes "length (filter on xs) \<le> 1"
  shows "\<exists>y. left_join on xs = [y] \<and> (\<forall>x. y = Some x \<longrightarrow> x \<in> set xs)"
proof (cases "filter on xs")
  case Nil
  then show ?thesis by (simp add: left_join_def)
next
  case (Cons y ys)
  with assms have "ys = []" by simp
  moreover from Cons have "y \<in> set (filter on xs)" by simp
  then have "y \<in> set xs" by simp
  ultimately show ?thesis using Cons by (simp add: left_join_def)
qed

lemma stats_query_one_per_column:
  assumes "at_most_one_statistics cat"
  shows "stats_query cat table_name =
         [cmd_create ob c.
            ob \<leftarrow> sys_objects cat, o_name ob = table_name,
            c \<leftarrow> sys_columns cat, c_object_id c = o_object_id ob]"
proof -
  have inner: "concat (map (\<lambda>sc. concat (map (\<lambda>s. if Q then [x] else [])
                  (left_join (\<lambda>s. case sc of None \<Rightarrow> False
                                | Some sc' \<Rightarrow> s_object_id s = sc_object_id sc' \<and>
                                             s_stats_id s = sc_stats_id sc')
                             (sys_stats cat))))
                  (left_join (\<lambda>sc. sc_object_id sc = c_object_id c \<and>
                                    sc_column_id sc = c_column_id c)
                             (sys_stats_columns cat))) =
               (if Q then [x] else [])"
    if c: "c \<in> set (sys_columns cat)" for c :: sys_column and Q and x :: string
  proof -
    from assms c have "length (matching_stats_columns cat c) \<le> 1"
      by (simp add: at_most_one_statistics_def list_all_iff)
    from left_join_single[OF this[unfolded matching_stats_columns_def]]
    obtain y where y: "left_join (\<lambda>sc. sc_object_id sc = c_object_id c \<and>
                                      sc_column_id sc = c_column_id c)
                                 (sys_stats_columns cat) = [y]"
      and mem: "\<forall>sc. y = Some sc \<longrightarrow> sc \<in> set (sys_stats_columns cat)" by blast
    have "\<exists>z. left_join (\<lambda>s. case y of None \<Rightarrow> False
                          | Some sc' \<Rightarrow> s_object_id s = sc_object_id sc' \<and>
                                       s_stats_id s = sc_stats_id sc') (sys_stats cat) = [z]"
    proof (cases y)
      case None
      then show ?thesis by (simp add: left_join_def)
    next
      case (Some sc)
      with mem assms have "length (matching_stats cat sc) \<le> 1"
        by (simp add: at_most_one_statistics_def list_all_iff)
      from left_join_single[OF this[unfolded matching_stats_def]] Some show ?thesis by auto
    qed
    then obtain z where "left_join (\<lambda>s. case y of None \<Rightarrow> False
                          | Some sc' \<Rightarrow> s_object_id s = sc_object_id sc' \<and>
                                       s_stats_id s = sc_stats_id sc') (sys_stats cat) = [z]"
      by blast
    with y show ?thesis by simp
  qed
  define F where "F = (\<lambda>ob c.
     concat (map (\<lambda>sc. concat (map (\<lambda>s. if o_name ob = table_name then [cmd_create ob c] else [])
                  (left_join (\<lambda>s. case sc of None \<Rightarrow> False
                                | Some sc' \<Rightarrow> s_object_id s = sc_object_id sc' \<and>
                                             s_stats_id s = sc_stats_id sc')
                             (sys_stats cat))))
                  (left_join (\<lambda>sc. sc_object_id sc = c_object_id c \<and>
                                    sc_column_id sc = c_column_id c)
                             (sys_stats_columns cat))))"
  have F: "F ob c = (if o_name ob = table_name then [cmd_create ob c] else [])"
    if "c \<in> set (sys_columns cat)" for ob c
    unfolding F_def by (rule inner[OF that])
  have sq: "stats_query cat table_name =
            concat (map (\<lambda>ob. concat (map (\<lambda>c. if o_object_id ob = c_object_id c then F ob c else [])
                                         (sys_columns cat))) (sys_objects cat))"
    unfolding stats_query_def F_def ..
  have per_col: "map (\<lambda>c. if o_object_id ob = c_object_id c then F ob c else []) (sys_columns cat) =
                 map (\<lambda>c. if o_name ob = table_name \<and> c_object_id c = o_object_id ob
                          then [cmd_create ob c] else []) (sys_columns cat)" for ob
    by (rule map_cong[OF refl]) (auto simp: F)
  have per_object: "concat (map (\<lambda>c. if o_name ob = table_name \<and> c_object_id c = o_object_id ob
                          then [cmd_create ob c] else []) (sys_columns cat)) =
                    (if o_name ob = table_name
                     then concat (map (\<lambda>c. if c_object_id c = o_object_id ob
                                            then [cmd_create ob c] else []) (sys_columns cat))
                     else [])" for ob
    by (induction "sys_columns cat") simp_all
  show ?thesis
    unfolding sq per_col per_object ..
qed

lemma executed_simps [simp]:
  "executed [] = []"
  "executed (Enter f # evs) = executed evs"
  "executed (Print m # evs) = executed evs"
  "executed (Call (Execute st cmd) r # evs) = cmd # executed evs"
  "executed (Call (ExecuteQuery st q) r # evs) = executed evs"
  "executed (Call (GetToken a) r # evs) = executed evs"
  "executed (Call (GetConnection u t) r # evs) = executed evs"
  "executed (Call (CreateStatement c) r # evs) = executed evs"
  "executed (Call (CloseStatement st) r # evs) = executed evs"
  "executed (Call (CloseConnection c) r # evs) = executed evs"
  "executed (Call (FsRm p b) r # evs) = executed evs"
  "executed (xs @ ys) = executed xs @ executed ys"
  by (simp_all add: executed_def)

lemma executed_command_events:
  "length rs = length cmds \<Longrightarrow> executed (concat (map2 (command_events st) cmds rs)) = cmds"
proof (induction cmds arbitrary: rs)
  case Nil
  then show ?case by simp
next
  case (Cons cmd cmds)
  then obtain r rs' where "rs = r # rs'" by (cases rs) auto
  with Cons show ?case by (simp add: command_events_def)
qed

subsection \<open>The branch of line 295\<close>

lemma emits_refresh_protected:
  assumes "\<And>c r. P (Call c r)" and "\<And>m. m \<noteq> Skipping_statistics \<Longrightarrow> P (Print m)"
    and "P (Enter Refresh_external_table)" and "P (Enter Get_jdbc_connection)"
    and "P (Enter Table_exists)" and "P (Enter Drop_external_table)"
    and "P (Enter Delete_adls_path)" and "P (Enter Create_external_table)"
  shows "emits P (refresh_protected E cetas config)"
proof (rule emits_cong_snd)
  show "emits P (pbind (enter Refresh_external_table) (\<lambda>_.
          pbind (\<lambda>s. (Inr (fst (refresh_try E cetas config s)), snd (refresh_try E cetas config s)))
            (\<lambda>(pending, fr, created).
               except_finally E Refresh_error Refresh_completed pending fr)))"
    using assms
    by (intro emits_pbind emits_enter)
       (auto intro!: emits_cong_snd[OF _ emits_refresh_body[of P E cetas config]]
             simp: split_def refresh_try_body)
  fix s
  show "snd (refresh_protected E cetas config s) =
        snd (pbind (enter Refresh_external_table) (\<lambda>_.
          pbind (\<lambda>s. (Inr (fst (refresh_try E cetas config s)), snd (refresh_try E cetas config s)))
            (\<lambda>(pending, fr, created).
               except_finally E Refresh_error Refresh_completed pending fr)) s)"
    by (simp add: refresh_protected_def pbind_def enter_def split: prod.splits sum.splits)
qed

lemma refresh_protected_true:
  assumes "fst (refresh_protected E cetas config s) = Inr b"
  shows "b"
proof -
  let ?s' = "snd (enter Refresh_external_table s)"
  obtain pending fr created s1 where
    t: "refresh_try E cetas config ?s' = ((pending, fr, created), s1)"
    by (cases "refresh_try E cetas config ?s'") auto
  have cr: "pending = None \<Longrightarrow> created"
    using t refresh_try_body(2,3)[of E cetas config ?s']
    by (cases "fst (refresh_body E cetas config ?s')") (simp_all add: raised_def)
  from assms t have "pending = None \<and> b = created"
    by (auto simp: refresh_protected_def except_finally_def Let_def
          split: prod.splits sum.splits option.splits)
  with cr show ?thesis by simp
qed

lemma skip_notice_unreachable:
  "Print Skipping_statistics \<notin> set (new_events (refresh_external_table E cetas config) s)"
proof -
  let ?P = "\<lambda>ev. ev \<noteq> Print Skipping_statistics"
  have "emits ?P (refresh_external_table E cetas config)"
  proof (rule emits_cong_snd)
    show "emits ?P (pbind (refresh_protected E cetas config)
                          (\<lambda>b. create_statistics_for_external_table E config))"
      by (intro emits_pbind emits_refresh_protected emits_create_statistics) simp_all
    fix s
    show "snd (refresh_external_table E cetas config s) =
          snd (pbind (refresh_protected E cetas config)
                     (\<lambda>b. create_statistics_for_external_table E config) s)"
    proof (cases "refresh_protected E cetas config s")
      case (Pair r s4)
      show ?thesis
      proof (cases r)
        case (Inl e)
        with Pair show ?thesis by (simp add: refresh_external_table_def pbind_def)
      next
        case (Inr b)
        with Pair have "fst (refresh_protected E cetas config s) = Inr b" by simp
        then have b by (rule refresh_protected_true)
        with Pair Inr show ?thesis by (simp add: refresh_external_table_def pbind_def)
      qed
    qed
  qed
  from emitsD(2)[OF this, of s] show ?thesis by (auto simp: list_all_iff)
qed

subsection \<open>The reference engine on the example inputs\<close>

lemma closes_ok_sim: "closes_ok sim_env"
  by (simp add: closes_ok_def sim_env_def)

lemma sim_connected:
  assumes "open_conns w = []" and "open_stmts w = []"
  shows "connected sim_env config (snd (enter f (start w))) 1 1
     \<lparr>world = connected_world w,
      trace = [Enter f, Enter Get_jdbc_connection, Call (GetToken ''DW'') None,
               Call (GetConnection (jdbc_url config) ''token'') None,
               Call (CreateStatement 1) None]\<rparr>"
  using assms
  by (simp add: connected_def get_jdbc_connection_def pbind_def enter_def extern_def sim_env_def
        raised_def fresh_def start_def connected_world_def)

lemma last_part_Sales: "last_part CHR ''.'' (external_table example_config) = ''Sales''"
  by code_simp

lemma sim_stats_query_Sales:
  "executeQuery sim_env st (stats_sql ''Sales'') w = (Inr (stats_query (sim_cat w) ''Sales''), w)"
proof -
  have "parse_query (stats_sql ''Sales'') = Some (Q_statistics ''Sales'')" by code_simp
  then show ?thesis by (simp add: sim_env_def sim_executeQuery_def)
qed

lemma sim_exists_query_Sales:
  "executeQuery sim_env st (table_exists_sql ''dbo.Sales'') w =
     (Inr (external_tables_query (sim_cat w) ''Sales''), w)"
proof -
  have "parse_query (table_exists_sql ''dbo.Sales'') = Some (Q_external_tables ''Sales'')"
    by code_simp
  then show ?thesis by (simp add: sim_env_def sim_executeQuery_def)
qed

lemma stats_query_sales_world:
  "stats_query (sim_cat (connected_world sales_world)) ''Sales'' = [cmd_id, cmd_amt]"
  by code_simp

lemma outcomes_sales_world:
  "outcomes sim_env st [cmd_id, cmd_amt] (connected_world sales_world) =
     [Some (PyException ''The statistics already exist''), None]"
  by code_simp

lemma config_fields [simp]:
  "external_table example_config = ''dbo.Sales''"
  "materialized_table_output_path example_config = ''abfss://t@a/folder_name/''"
  "external_table shipped_config = ''dbo.Sales''"
  "materialized_table_output_path shipped_config = ''abfss://t@a/folder/materialized_table/''"
  "external_table other_config = ''dbo.Other''"
  "materialized_table_output_path other_config = ''abfss://t@a/elsewhere/''"
  by (simp_all add: example_config_def shipped_config_def other_config_def)

lemma parse_examples [simp]:
  "parse_query (stats_sql ''Sales'') = Some (Q_statistics ''Sales'')"
  "parse_query (table_exists_sql ''dbo.Sales'') = Some (Q_external_tables ''Sales'')"
  "parse_statement (cetas_sql shipped_config) = Some (Cetas ''dbo.Sales'' ''/folder_name/'')"
  "parse_statement (cetas_sql example_config) = Some (Cetas ''dbo.Sales'' ''/folder_name/'')"
  "parse_statement (drop_sql ''dbo.Sales'') = Some (Drop_table ''dbo.Sales'')"
  "parse_statement cmd_id = Some (Create_stats ''Stats_id'' ''dbo'' ''Sales'' ''id'')"
  "parse_statement cmd_amt = Some (Create_stats ''Stats_amt'' ''dbo'' ''Sales'' ''amt'')"
  by code_simp+

lemma name_examples [simp]:
  "last_part CHR ''.'' ''dbo.Sales'' = ''Sales''"
  "split_name ''dbo.Sales'' = (''dbo'', ''Sales'')"
  by code_simp+

lemmas run_defs =
  refresh_external_table_def refresh_protected_def refresh_try_def refresh_steps_def
  except_finally_def release_def create_statistics_for_external_table_def statistics_try_def
  statistics_steps_def get_jdbc_connection_def table_exists_def drop_external_table_def
  delete_adls_path_def create_external_table_def pbind_def preturn_def extern_def print_def
  enter_def raised_def start_def Let_def try_except_def

lemma external_tables_query_filter:
  "external_tables_query c n =
     map (\<lambda>t. ''1'') (filter (\<lambda>t. o_name t = n) (sys_external_tables c))"
proof -
  have "concat (map (\<lambda>t. if o_name t = n then [''1''] else []) ts) =
        map (\<lambda>t. ''1'') (filter (\<lambda>t. o_name t = n) ts)" for ts :: "sys_object list"
    by (induction ts) simp_all
  then show ?thesis by (simp add: external_tables_query_def)
qed

lemmas sim_defs =
  sim_env_def sim_execute_def sim_executeQuery_def sim_rm_def sim_drop_def sim_cetas_def
  sim_create_stats_def find_object_def fresh_def external_tables_query_filter
  sys_external_tables_def

lemma parse_commands [simp]:
  "parse_statement ''CREATE STATISTICS [Stats_id] ON [dbo].[Sales] ([id]) WITH FULLSCAN;'' =
     Some (Create_stats ''Stats_id'' ''dbo'' ''Sales'' ''id'')"
  "parse_statement ''CREATE STATISTICS [Stats_amt] ON [dbo].[Sales] ([amt]) WITH FULLSCAN;'' =
     Some (Create_stats ''Stats_amt'' ''dbo'' ''Sales'' ''amt'')"
  "parse_statement ''CREATE STATISTICS [Stats_id] ON [stg].[Sales] ([id]) WITH FULLSCAN;'' =
     Some (Create_stats ''Stats_id'' ''stg'' ''Sales'' ''id'')"
  by code_simp+

lemmas query_defs = stats_query_def left_join_def cmd_create_def

lemma first_run_shipped:
  "fst (refresh_once shipped_config empty_world) = Inr () \<and>
   world (snd (refresh_once shipped_config empty_world)) = refreshed_world"
  by (simp add: refresh_once_def run_defs sim_defs query_defs empty_world_def refreshed_world_def)

lemma second_run_shipped:
  "fst (refresh_once shipped_config refreshed_world) =
     Inl (PyException ''External table location already exists'') \<and>
   world (snd (refresh_once shipped_config refreshed_world)) = stale_world"
  by (simp add: refresh_once_def run_defs sim_defs query_defs empty_world_def refreshed_world_def
        stale_world_def)

lemma refresh_twice_consistent_example:
  "fst (refresh_twice example_config empty_world) = Inr () \<and>
   world (snd (refresh_twice example_config empty_world)) =
   world (snd (refresh_once example_config empty_world))"
proof -
  have a: "fst (refresh_once example_config empty_world) = Inr () \<and>
           world (snd (refresh_once example_config empty_world)) = refreshed_world"
    by (simp add: refresh_once_def run_defs sim_defs query_defs empty_world_def
          refreshed_world_def)
  have b: "fst (refresh_once example_config refreshed_world) = Inr () \<and>
           world (snd (refresh_once example_config refreshed_world)) = refreshed_world"
    by (simp add: refresh_once_def run_defs sim_defs query_defs refreshed_world_def)
  from a b show ?thesis by (simp add: refresh_twice_def)
qed

lemma closed_empty_world: "open_conns empty_world = []" "open_stmts empty_world = []"
  by (simp_all add: empty_world_def)

lemma closed_sales_world: "open_conns sales_world = []" "open_stmts sales_world = []"
  by (simp_all add: sales_world_def)

lemma at_most_one_sales: "at_most_one_statistics (sim_cat (connected_world sales_world))"
  by code_simp

lemma failed_create_leaves_table_absent:
  "find_object (sim_cat sales_world) ''dbo'' ''Sales'' \<noteq> None \<and>
   Call (Execute 1 (drop_sql ''dbo.Sales'')) None \<in>
     set (new_events (refresh_try sim_env (cetas_sql shipped_config) shipped_config)
            (snd (enter Refresh_external_table (start sales_world)))) \<and>
   fst (refresh_external_table sim_env (cetas_sql shipped_config) shipped_config
          (start sales_world)) =
     Inl (PyException ''External table location already exists'') \<and>
   find_object (sim_cat (world (snd (refresh_external_table sim_env (cetas_sql shipped_config)
                                       shipped_config (start sales_world))))) ''dbo'' ''Sales''
     = None"
proof -
  have tr: "new_events (refresh_try sim_env (cetas_sql shipped_config) shipped_config)
              (snd (enter Refresh_external_table (start sales_world))) =
            [Enter Get_jdbc_connection, Call (GetToken ''DW'') None,
             Call (GetConnection (jdbc_url shipped_config) ''token'') None,
             Call (CreateStatement 1) None,
             Enter Table_exists,
             Call (ExecuteQuery 1 (table_exists_sql ''dbo.Sales'')) None,
             Enter Drop_external_table,
             Call (Execute 1 (drop_sql ''dbo.Sales'')) None,
             Print (Dropped ''dbo.Sales''),
             Enter Delete_adls_path,
             Call (FsRm ''abfss://t@a/folder/materialized_table/'' True) None,
             Print (Path_not_found ''abfss://t@a/folder/materialized_table/''),
             Enter Create_external_table,
             Call (Execute 1 (cetas_sql shipped_config))
               (Some (PyException ''External table location already exists''))]"
    and w: "find_object (sim_cat (world (snd (refresh_try sim_env (cetas_sql shipped_config)
              shipped_config (snd (enter Refresh_external_table (start sales_world))))))) ''dbo''
              ''Sales'' = None"
    by (simp_all add: new_events_def run_defs sim_defs sales_world_def)
  have err: "Call (Execute 1 (cetas_sql shipped_config))
               (Some (PyException ''External table location already exists'')) \<in>
             set (new_events (refresh_try sim_env (cetas_sql shipped_config) shipped_config)
                    (snd (enter Refresh_external_table (start sales_world))))"
    by (simp add: tr)
  have f1: "\<And>st w. sim_cat (snd (close_stmt sim_env st w)) = sim_cat w"
    and f2: "\<And>c w. sim_cat (snd (close_conn sim_env c w)) = sim_cat w"
    by (simp_all add: sim_env_def)
  note th = errors_propagate_when_closes_return[of sim_env sim_cat, OF closes_ok_sim f1 f2 err]
  have pre: "find_object (sim_cat sales_world) ''dbo'' ''Sales'' \<noteq> None"
    by (simp add: find_object_def sales_world_def)
  from th w pre show ?thesis by (simp add: tr)
qed

lemma stats_query_duplicates_example:
  "stats_query duplicated_catalog ''Sales'' = [cmd_id, cmd_id] \<and>
   \<not> at_most_one_statistics duplicated_catalog"
  by code_simp

lemma staging_fields [simp]:
  "external_table staging_config = ''stg.Sales''"
  "materialized_table_output_path staging_config = ''abfss://t@a/staging/''"
  by (simp_all add: staging_config_def)

lemma parse_staging [simp]:
  "parse_query (table_exists_sql ''stg.Sales'') = Some (Q_external_tables ''Sales'')"
  "parse_statement (drop_sql ''stg.Sales'') = Some (Drop_table ''stg.Sales'')"
  "split_name ''stg.Sales'' = (''stg'', ''Sales'')"
  by code_simp+

subsection \<open>A close that raises\<close>

lemma release_statement_close_raises:
  assumes "stmt_var fr = Some st" and "close_stmt E st (world s) = (Inl e, w')"
  shows "release E fr m s =
         (Inl e, \<lparr>world = w', trace = trace s @ [Call (CloseStatement st) (Some e)]\<rparr>)"
  using assms by (simp add: release_def pbind_def extern_def raised_def)

lemma statement_close_failure_skips_connection_close:
  assumes conn: "connected E config (snd (enter Refresh_external_table s)) c st s2"
      and cs: "fst (close_stmt E st (world (snd (refresh_steps E cetas config st s2)))) = Inl e'"
  shows "fst (refresh_external_table E cetas config s) = Inl e' \<and>
         last (new_events (refresh_external_table E cetas config) s) =
           Call (CloseStatement st) (Some e') \<and>
         (\<forall>c' r. Call (CloseConnection c') r \<notin>
                   set (new_events (refresh_external_table E cetas config) s)) \<and>
         Enter Create_statistics_for_external_table \<notin>
           set (new_events (refresh_external_table E cetas config) s)"
proof -
  let ?s' = "snd (enter Refresh_external_table s)"
  let ?s3 = "snd (refresh_steps E cetas config st s2)"
  let ?pending = "raised (fst (refresh_steps E cetas config st s2))"
  let ?fr = "\<lparr>conn_var = Some c, stmt_var = Some st\<rparr>"
  let ?P = "\<lambda>ev. (\<forall>c' r. ev \<noteq> Call (CloseConnection c') r) \<and>
                  ev \<noteq> Enter Create_statistics_for_external_table"
  let ?err = "case ?pending of None \<Rightarrow> [] | Some e \<Rightarrow> [Print (Refresh_error e)]"
  let ?s3' = "case ?pending of None \<Rightarrow> ?s3 | Some e \<Rightarrow> snd (print (Refresh_error e) ?s3)"
  obtain w' where c3: "close_stmt E st (world ?s3) = (Inl e', w')"
    using cs by (cases "close_stmt E st (world ?s3)") simp
  have w3: "world ?s3' = world ?s3" and t3': "trace ?s3' = trace ?s3 @ ?err"
    by (simp_all add: print_def split: option.splits)
  from c3 w3 have c3': "close_stmt E st (world ?s3') = (Inl e', w')" by simp
  have rel: "release E ?fr Refresh_completed ?s3' =
             (Inl e', \<lparr>world = w', trace = trace ?s3' @ [Call (CloseStatement st) (Some e')]\<rparr>)"
    by (rule release_statement_close_raises[OF _ c3']) simp
  have ef: "except_finally E Refresh_error Refresh_completed ?pending ?fr ?s3 =
            (Inl e', \<lparr>world = w', trace = trace ?s3' @ [Call (CloseStatement st) (Some e')]\<rparr>)"
    using rel by (simp add: except_finally_def Let_def)
  have prot: "refresh_protected E cetas config s =
              (Inl e', \<lparr>world = w', trace = trace ?s3' @ [Call (CloseStatement st) (Some e')]\<rparr>)"
    by (simp add: refresh_protected_def refresh_try_connected[OF conn] ef)
  then have run: "refresh_external_table E cetas config s =
              (Inl e', \<lparr>world = w', trace = trace ?s3' @ [Call (CloseStatement st) (Some e')]\<rparr>)"
    by (simp add: refresh_external_table_def pbind_def)
  have "emits ?P (refresh_steps E cetas config st)"
    by (rule emits_refresh_steps) (auto elim: is_close.elims)
  from emitsD[OF this, of s2]
  have t3: "trace ?s3 = trace s2 @ new_events (refresh_steps E cetas config st) s2"
    and p3: "list_all ?P (new_events (refresh_steps E cetas config st) s2)"
    by simp_all
  from connected_trace[OF conn] obtain token where
    t2: "trace s2 = trace ?s' @
           [Enter Get_jdbc_connection, Call (GetToken ''DW'') None,
            Call (GetConnection (jdbc_url config) token) None, Call (CreateStatement c) None]"
    by blast
  have t': "trace ?s' = trace s @ [Enter Refresh_external_table]" by (simp add: enter_def)
  let ?body = "[Enter Refresh_external_table, Enter Get_jdbc_connection,
                Call (GetToken ''DW'') None,
                Call (GetConnection (jdbc_url config) token) None, Call (CreateStatement c) None] @
               new_events (refresh_steps E cetas config st) s2 @ ?err"
  have ne: "new_events (refresh_external_table E cetas config) s =
            ?body @ [Call (CloseStatement st) (Some e')]"
    by (rule new_events_append) (simp add: run t3' t3 t2 t')
  have pb: "list_all ?P ?body"
    using p3 by (simp split: option.splits)
  from pb have "\<forall>ev \<in> set ?body. ?P ev" by (simp only: list_all_iff)
  then show ?thesis
    unfolding ne by (auto simp: run)
qed

lemma error_aborts_run:
  fixes obs :: "'w \<Rightarrow> 'o"
  assumes fr1: "\<And>st w. obs (snd (close_stmt E st w)) = obs w"
      and fr2: "\<And>c w. obs (snd (close_conn E c w)) = obs w"
      and err: "Call k (Some e) \<in> set (new_events (refresh_try E cetas config)
                                          (snd (enter Refresh_external_table s)))"
  shows "(\<exists>e'. fst (refresh_external_table E cetas config s) = Inl e') \<and>
         Enter Create_statistics_for_external_table \<notin>
           set (new_events (refresh_external_table E cetas config) s) \<and>
         obs (world (snd (refresh_external_table E cetas config s))) =
           obs (world (snd (refresh_try E cetas config (snd (enter Refresh_external_table s)))))"
proof -
  let ?s' = "snd (enter Refresh_external_table s)"
  note p = refresh_try_pending[OF err]
  obtain pending fr created s1 where
    t: "refresh_try E cetas config ?s' = ((pending, fr, created), s1)"
    by (cases "refresh_try E cetas config ?s'") auto
  with p(1) have pe: "pending = Some e" by simp
  obtain r s2 where ef: "except_finally E Refresh_error Refresh_completed pending fr s1 = (r, s2)"
    by (cases "except_finally E Refresh_error Refresh_completed pending fr s1")
  from ef pe obtain e' where r: "r = Inl e'"
    by (auto simp: except_finally_def Let_def split: prod.splits sum.splits)
  have prot: "refresh_protected E cetas config s = (Inl e', s2)"
    using t ef r by (simp add: refresh_protected_def)
  then have run: "refresh_external_table E cetas config s = (Inl e', s2)"
    by (simp add: refresh_external_table_def pbind_def)
  have "emits (\<lambda>ev. ev \<noteq> Enter Create_statistics_for_external_table)
          (refresh_protected E cetas config)"
    by (rule emits_refresh_protected) simp_all
  from emitsD(2)[OF this, of s]
  have ns: "Enter Create_statistics_for_external_table \<notin>
            set (new_events (refresh_external_table E cetas config) s)"
    by (auto simp: new_events_def run prot list_all_iff)
  have "obs (world s2) = obs (world s1)"
    using except_finally_obs[of obs E Refresh_error Refresh_completed pending fr s1, OF fr1 fr2] ef
    by simp
  with run ns t show ?thesis by simp
qed

section \<open>The claims\<close>

subsection \<open>C1: a failing statistics command is isolated\<close>

text \<open>
  Claim C1. Let \<^verbatim>\<open>create_statistics_for_external_table\<close> have connected and let the catalog
  query have returned the commands \<open>commands\<close>, at least one. Then, whichever of the commands
  raise and whatever they raise, the function returns normally, and after the query and line
  217 the trace holds, for every command in the order of the list, its call followed by the
  message of line 221 or, if it raised, the message of line 223 with the command and the
  exception; then the statement and the connection are closed. So a command that fails is
  caught and logged, every other command is still executed, and the error does not reach the
  caller. The closes are assumed not to raise.
\<close>

theorem statistics_failure_isolated:
  assumes "connected E config (snd (enter Create_statistics_for_external_table s)) c st s2"
      and "executeQuery E st (stats_sql (last_part CHR ''.'' (external_table config))) (world s2)
             = (Inr commands, w3)"
      and "commands \<noteq> []"
      and "closes_ok E"
  shows "fst (create_statistics_for_external_table E config s) = Inr () \<and>
         trace (snd (create_statistics_for_external_table E config s)) =
           trace s2 @
           [Call (ExecuteQuery st (stats_sql (last_part CHR ''.'' (external_table config)))) None,
            Print (Creating_statistics (length commands)
                     (last_part CHR ''.'' (external_table config)))] @
           concat (map2 (command_events st) commands (outcomes E st commands w3)) @
           [Call (CloseStatement st) None, Call (CloseConnection c) None,
            Print Statistics_completed]"
  using create_statistics_run[OF assms(1,2,4)] assms(3) by simp

text \<open>
  Witness for C1, on the reference engine: \<^verbatim>\<open>Stats_id\<close> exists already, so the first of
  the two commands is rejected; the second is executed and the run succeeds.
\<close>

theorem statistics_failure_isolated_witness:
  "closes_ok sim_env \<and>
   fst (create_statistics_for_external_table sim_env example_config (start sales_world)) = Inr () \<and>
   trace (snd (create_statistics_for_external_table sim_env example_config (start sales_world))) =
     [Enter Create_statistics_for_external_table, Enter Get_jdbc_connection,
      Call (GetToken ''DW'') None,
      Call (GetConnection (jdbc_url example_config) ''token'') None,
      Call (CreateStatement 1) None,
      Call (ExecuteQuery 1 (stats_sql ''Sales'')) None,
      Print (Creating_statistics 2 ''Sales''),
      Call (Execute 1 cmd_id) (Some (PyException ''The statistics already exist'')),
      Print (Failed cmd_id (PyException ''The statistics already exist'')),
      Call (Execute 1 cmd_amt) None,
      Print (Executed cmd_amt),
      Call (CloseStatement 1) None, Call (CloseConnection 1) None, Print Statistics_completed]"
proof -
  have oc: "open_conns sales_world = []" "open_stmts sales_world = []"
    by (simp_all add: sales_world_def)
  note conn = sim_connected[OF oc, of example_config Create_statistics_for_external_table]
  have q: "executeQuery sim_env 1 (stats_sql (last_part CHR ''.'' (external_table example_config)))
             (world \<lparr>world = connected_world sales_world,
                trace = [Enter Create_statistics_for_external_table, Enter Get_jdbc_connection,
                   Call (GetToken ''DW'') None,
                   Call (GetConnection (jdbc_url example_config) ''token'') None,
                   Call (CreateStatement 1) None]\<rparr>) =
           (Inr [cmd_id, cmd_amt], connected_world sales_world)"
    by (simp add: last_part_Sales sim_stats_query_Sales stats_query_sales_world)
  have ne: "[cmd_id, cmd_amt] \<noteq> []" by simp
  note th = statistics_failure_isolated[OF conn q ne closes_ok_sim,
              unfolded outcomes_sales_world last_part_Sales]
  from th closes_ok_sim show ?thesis
    by (simp add: command_events_def)
qed

subsection \<open>C2: a failed create and the skip notice\<close>

text \<open>
  Claim C2, evaluated where the CETAS statement is rejected (its location already holds
  files). Statistics are not started and the exception reaches the caller, as the claim
  says. The notice of line 295 is not printed: line 282 re-raises, so control never reaches
  line 291 when \<^verbatim>\<open>table_created\<close> is false.
\<close>

theorem skip_notice_missing_after_failed_create:
  "refresh_external_table sim_env (cetas_sql shipped_config) shipped_config (start stale_world) =
     (Inl (PyException ''External table location already exists''),
      \<lparr>world = stale_world,
       trace =
         [Enter Refresh_external_table, Enter Get_jdbc_connection,
          Call (GetToken ''DW'') None,
          Call (GetConnection (jdbc_url shipped_config) ''token'') None,
          Call (CreateStatement 1) None,
          Enter Table_exists,
          Call (ExecuteQuery 1 (table_exists_sql ''dbo.Sales'')) None,
          Print (Skipping_drop ''dbo.Sales''),
          Enter Delete_adls_path,
          Call (FsRm ''abfss://t@a/folder/materialized_table/'' True) None,
          Print (Path_not_found ''abfss://t@a/folder/materialized_table/''),
          Enter Create_external_table,
          Call (Execute 1 (cetas_sql shipped_config))
            (Some (PyException ''External table location already exists'')),
          Print (Refresh_error (PyException ''External table location already exists'')),
          Call (CloseStatement 1) None, Call (CloseConnection 1) None,
          Print Refresh_completed]\<rparr>)"
  by (simp add: run_defs sim_defs stale_world_def empty_world_def)

subsection \<open>C3: when the table is dropped\<close>




subsection \<open>C4: what \<^verbatim>\<open>table_exists\<close> returns\<close>

text \<open>
  Claim C4 as stated fails: with two external tables of the same name in two schemas the
  query returns two rows and \<^verbatim>\<open>rs.next()\<close> is true, although the match is not unique.
\<close>

theorem table_exists_counterexample:
  "fst (table_exists sim_env 1 ''dbo.Sales'' (start two_schema_world)) = Inr True \<and>
   length (filter (\<lambda>t. o_name t = ''Sales'') (sys_external_tables (sim_cat two_schema_world))) = 2"
  by (simp add: run_defs sim_defs two_schema_world_def)

text \<open>
  Claim C4, amended. When the engine answers the query of lines 154-158 over the catalog
  \<open>cat\<close>, \<^verbatim>\<open>table_exists\<close> returns normally, with true if and only if at least
  one external table has the unqualified name; absence is the value false.
\<close>

theorem table_exists_iff_some_match:
  assumes "executeQuery E st (table_exists_sql table_name) (world s) =
             (Inr (external_tables_query cat (last_part CHR ''.'' table_name)), w')"
  shows "fst (table_exists E st table_name s) =
           Inr (\<exists>t \<in> set (sys_external_tables cat). o_name t = last_part CHR ''.'' table_name)"
  using table_exists_run[OF assms]
  by (auto simp: external_tables_query_def filter_empty_conv)

text \<open>Witness for C4: the table is found in one world and not in the other.\<close>

theorem table_exists_iff_some_match_witness:
  "fst (table_exists sim_env 1 ''dbo.Sales'' (start sales_world)) = Inr True \<and>
   fst (table_exists sim_env 1 ''dbo.Sales'' (start empty_world)) = Inr False"
proof -
  have a: "executeQuery sim_env 1 (table_exists_sql ''dbo.Sales'') (world (start w)) =
             (Inr (external_tables_query (sim_cat w) (last_part CHR ''.'' ''dbo.Sales'')), w)" for w
    by (simp add: sim_exists_query_Sales start_def)
  from table_exists_iff_some_match[OF a, of sales_world]
       table_exists_iff_some_match[OF a, of empty_world]
  show ?thesis
    by (simp add: sys_external_tables_def sales_world_def empty_world_def)
qed

subsection \<open>C5: the statistics plan\<close>

text \<open>
  Claim C5 as stated fails: the query of lines 193-204 selects by the unqualified name, so
  with \<^verbatim>\<open>dbo.Sales\<close> and \<^verbatim>\<open>stg.Sales\<close> in the catalog the plan for \<^verbatim>\<open>dbo.Sales\<close>,
  a table of one column, has two commands.
\<close>

theorem statistics_plan_counterexample:
  "executed (new_events (create_statistics_for_external_table sim_env example_config)
               (start two_schema_world)) =
     [''CREATE STATISTICS [Stats_id] ON [dbo].[Sales] ([id]) WITH FULLSCAN;'',
      ''CREATE STATISTICS [Stats_id] ON [stg].[Sales] ([id]) WITH FULLSCAN;''] \<and>
   map c_name (filter (\<lambda>c. c_object_id c = 1) (sys_columns (sim_cat two_schema_world))) = [''id'']"
  by (simp add: new_events_def run_defs sim_defs query_defs two_schema_world_def)

text \<open>
  Claim C5, amended. Let the function have connected, let the engine answer the statistics
  query over the catalog \<open>cat\<close>, and let no column of \<open>cat\<close> have more than one
  statistics object. Then the commands executed are exactly one for every column of every
  object that has the table's unqualified name, whether or not the column has statistics, in
  the order in which the catalog lists objects and columns. When there is none, no command
  is executed, line 213 is printed and the function returns normally.
\<close>

theorem statistics_plan_per_column:
  assumes conn: "connected E config (snd (enter Create_statistics_for_external_table s)) c st s2"
      and q: "executeQuery E st (stats_sql (last_part CHR ''.'' (external_table config))) (world s2)
                = (Inr (stats_query cat (last_part CHR ''.'' (external_table config))), w3)"
      and one: "at_most_one_statistics cat"
      and cl: "closes_ok E"
  shows "executed (new_events (create_statistics_for_external_table E config) s) =
           [cmd_create ob col.
              ob \<leftarrow> sys_objects cat, o_name ob = last_part CHR ''.'' (external_table config),
              col \<leftarrow> sys_columns cat, c_object_id col = o_object_id ob] \<and>
         fst (create_statistics_for_external_table E config s) = Inr () \<and>
         (stats_query cat (last_part CHR ''.'' (external_table config)) = [] \<longrightarrow>
            Print (No_statistics (last_part CHR ''.'' (external_table config))) \<in>
              set (new_events (create_statistics_for_external_table E config) s))"
proof -
  let ?tn = "last_part CHR ''.'' (external_table config)"
  let ?cmds = "stats_query cat ?tn"
  note run = create_statistics_run[OF conn q cl]
  from connected_trace[OF conn] obtain token where
    t2: "trace s2 = trace s @
           [Enter Create_statistics_for_external_table, Enter Get_jdbc_connection,
            Call (GetToken ''DW'') None, Call (GetConnection (jdbc_url config) token) None,
            Call (CreateStatement c) None]"
    by (auto simp: enter_def)
  have ne: "new_events (create_statistics_for_external_table E config) s =
         [Enter Create_statistics_for_external_table, Enter Get_jdbc_connection,
            Call (GetToken ''DW'') None, Call (GetConnection (jdbc_url config) token) None,
            Call (CreateStatement c) None] @
         [Call (ExecuteQuery st (stats_sql ?tn)) None] @
         (if ?cmds = [] then [Print (No_statistics ?tn)]
          else Print (Creating_statistics (length ?cmds) ?tn) #
               concat (map2 (command_events st) ?cmds (outcomes E st ?cmds w3))) @
         [Call (CloseStatement st) None, Call (CloseConnection c) None, Print Statistics_completed]"
    by (rule new_events_append) (simp add: run(2) t2)
  have ex: "executed (new_events (create_statistics_for_external_table E config) s) = ?cmds"
    unfolding ne by (simp add: executed_command_events)
  show ?thesis
    using run(1) ex stats_query_one_per_column[OF one, of ?tn]
    by (simp add: ne)
qed

text \<open>
  Witness for C5: two columns, one of them with statistics already, and one command for
  each; and a catalog without the table, where nothing is planned.
\<close>

theorem statistics_plan_per_column_witness:
  "at_most_one_statistics (sim_cat (connected_world sales_world)) \<and>
   executed (new_events (create_statistics_for_external_table sim_env example_config)
               (start sales_world)) = [cmd_id, cmd_amt] \<and>
   fst (create_statistics_for_external_table sim_env example_config (start sales_world)) = Inr () \<and>
   at_most_one_statistics (sim_cat (connected_world empty_world)) \<and>
   stats_query (sim_cat (connected_world empty_world)) ''Sales'' = [] \<and>
   executed (new_events (create_statistics_for_external_table sim_env example_config)
               (start empty_world)) = [] \<and>
   fst (create_statistics_for_external_table sim_env example_config (start empty_world)) = Inr () \<and>
   Print (No_statistics ''Sales'') \<in>
     set (new_events (create_statistics_for_external_table sim_env example_config)
            (start empty_world))"
proof -
  note conn0 = sim_connected[OF closed_empty_world, of example_config
                 Create_statistics_for_external_table]
  have q0: "executeQuery sim_env 1 (stats_sql (last_part CHR ''.'' (external_table example_config)))
             (world \<lparr>world = connected_world empty_world,
                trace = [Enter Create_statistics_for_external_table, Enter Get_jdbc_connection,
                   Call (GetToken ''DW'') None,
                   Call (GetConnection (jdbc_url example_config) ''token'') None,
                   Call (CreateStatement 1) None]\<rparr>) =
           (Inr (stats_query (sim_cat (connected_world empty_world))
                   (last_part CHR ''.'' (external_table example_config))),
            connected_world empty_world)"
    by (simp add: sim_stats_query_Sales)
  have one0: "at_most_one_statistics (sim_cat (connected_world empty_world))"
    by code_simp
  have none0: "stats_query (sim_cat (connected_world empty_world)) ''Sales'' = []"
    by code_simp
  have cmds0: "[cmd_create ob col.
                 ob \<leftarrow> sys_objects (sim_cat (connected_world empty_world)), o_name ob = ''Sales'',
                 col \<leftarrow> sys_columns (sim_cat (connected_world empty_world)),
                 c_object_id col = o_object_id ob] = []"
    by code_simp
  note th0 = statistics_plan_per_column[OF conn0 q0 one0 closes_ok_sim,
               unfolded last_part_Sales cmds0]
  note conn = sim_connected[OF closed_sales_world, of example_config
                Create_statistics_for_external_table]
  have q: "executeQuery sim_env 1 (stats_sql (last_part CHR ''.'' (external_table example_config)))
             (world \<lparr>world = connected_world sales_world,
                trace = [Enter Create_statistics_for_external_table, Enter Get_jdbc_connection,
                   Call (GetToken ''DW'') None,
                   Call (GetConnection (jdbc_url example_config) ''token'') None,
                   Call (CreateStatement 1) None]\<rparr>) =
           (Inr (stats_query (sim_cat (connected_world sales_world))
                   (last_part CHR ''.'' (external_table example_config))),
            connected_world sales_world)"
    by (simp add: sim_stats_query_Sales)
  have cmds: "[cmd_create ob col.
                 ob \<leftarrow> sys_objects (sim_cat (connected_world sales_world)), o_name ob = ''Sales'',
                 col \<leftarrow> sys_columns (sim_cat (connected_world sales_world)),
                 c_object_id col = o_object_id ob] = [cmd_id, cmd_amt]"
    by code_simp
  note th = statistics_plan_per_column[OF conn q at_most_one_sales closes_ok_sim,
              unfolded last_part_Sales cmds]
  from th th0 at_most_one_sales one0 none0 show ?thesis by simp
qed

subsection \<open>C6: the connection when a close raises\<close>

text \<open>
  Claim C6, evaluated where every step of the \<^verbatim>\<open>try\<close> body succeeds and \<^verbatim>\<open>stmt.close()\<close>
  then raises in the \<^verbatim>\<open>finally\<close> block of lines 284-289. The exception leaves the block at
  line 286, so \<^verbatim>\<open>conn.close()\<close> of line 288 is not reached: the run ends with the
  connection open, and the caller receives the exception. The claim has the connection
  released on every path. The lemma \<open>statement_close_failure_skips_connection_close\<close>
  shows the same for every environment. Whenever the closes return, the connection is closed
  before the statistics function starts (\<open>connection_released_when_closes_return\<close>), and
  that function begins by requesting a connection of its own (\<open>create_statistics_prefix\<close>).
\<close>

theorem connection_left_open_when_statement_close_raises:
  "fst (refresh_external_table failing_close_env (cetas_sql example_config) example_config
          (start empty_world)) = Inl (PyException ''close failed'') \<and>
   trace (snd (refresh_external_table failing_close_env (cetas_sql example_config) example_config
                 (start empty_world))) =
     [Enter Refresh_external_table, Enter Get_jdbc_connection,
      Call (GetToken ''DW'') None,
      Call (GetConnection (jdbc_url example_config) ''token'') None,
      Call (CreateStatement 1) None,
      Enter Table_exists,
      Call (ExecuteQuery 1 (table_exists_sql ''dbo.Sales'')) None,
      Print (Skipping_drop ''dbo.Sales''),
      Enter Delete_adls_path,
      Call (FsRm ''abfss://t@a/folder_name/'' True) None,
      Print (Path_not_found ''abfss://t@a/folder_name/''),
      Enter Create_external_table,
      Call (Execute 1 (cetas_sql example_config)) None,
      Print (Created ''dbo.Sales''),
      Call (CloseStatement 1) (Some (PyException ''close failed''))] \<and>
   open_conns (world (snd (refresh_external_table failing_close_env (cetas_sql example_config)
                             example_config (start empty_world)))) = [1]"
  by (simp add: failing_close_env_def run_defs sim_defs empty_world_def)

subsection \<open>C7: the error that reaches the caller\<close>

text \<open>
  Claim C7, evaluated where the table exists, the drop succeeds, the create is rejected and
  \<^verbatim>\<open>stmt.close()\<close> then raises in the \<^verbatim>\<open>finally\<close> block of lines 284-289. The run is
  aborted and the table is absent at the end, as the claim says. But the exception that
  reaches the caller is the one of the close and not the one of the create, and the
  connection is not released: the exception raised at line 286 replaces the pending one and
  skips line 288. The lemma \<open>errors_propagate_when_closes_return\<close> shows that the error of
  the step reaches the caller after both closes whenever the closes return, and
  \<open>error_aborts_run\<close> that in every environment the run is aborted, no statistics are
  started and nothing is undone.
\<close>

theorem close_failure_replaces_create_error:
  "find_object (sim_cat sales_world) ''dbo'' ''Sales'' \<noteq> None \<and>
   fst (refresh_external_table failing_close_env (cetas_sql shipped_config) shipped_config
          (start sales_world)) = Inl (PyException ''close failed'') \<and>
   trace (snd (refresh_external_table failing_close_env (cetas_sql shipped_config) shipped_config
                 (start sales_world))) =
     [Enter Refresh_external_table, Enter Get_jdbc_connection,
      Call (GetToken ''DW'') None,
      Call (GetConnection (jdbc_url shipped_config) ''token'') None,
      Call (CreateStatement 1) None,
      Enter Table_exists,
      Call (ExecuteQuery 1 (table_exists_sql ''dbo.Sales'')) None,
      Enter Drop_external_table,
      Call (Execute 1 (drop_sql ''dbo.Sales'')) None,
      Print (Dropped ''dbo.Sales''),
      Enter Delete_adls_path,
      Call (FsRm ''abfss://t@a/folder/materialized_table/'' True) None,
      Print (Path_not_found ''abfss://t@a/folder/materialized_table/''),
      Enter Create_external_table,
      Call (Execute 1 (cetas_sql shipped_config))
        (Some (PyException ''External table location already exists'')),
      Print (Refresh_error (PyException ''External table location already exists'')),
      Call (CloseStatement 1) (Some (PyException ''close failed''))] \<and>
   open_conns (world (snd (refresh_external_table failing_close_env (cetas_sql shipped_config)
                             shipped_config (start sales_world)))) = [1] \<and>
   find_object (sim_cat (world (snd (refresh_external_table failing_close_env
                                       (cetas_sql shipped_config) shipped_config
                                       (start sales_world))))) ''dbo'' ''Sales'' = None"
  by (simp add: failing_close_env_def run_defs sim_defs sales_world_def)

subsection \<open>C8: what \<^verbatim>\<open>delete_adls_path\<close> returns\<close>

text \<open>
  Claim C8 as stated fails: \<^verbatim>\<open>delete_adls_path\<close> has no \<^verbatim>\<open>return\<close>; it returns the same
  value where the storage call deleted something and where it found nothing.
\<close>

theorem delete_adls_path_counterexample:
  "fst (fs_rm sim_env ''abfss://t@a/folder_name/'' True sales_world) = Inr True \<and>
   fst (fs_rm sim_env ''abfss://t@a/folder_name/'' True empty_world) = Inr False \<and>
   fst (delete_adls_path sim_env ''abfss://t@a/folder_name/'' (start sales_world)) =
   fst (delete_adls_path sim_env ''abfss://t@a/folder_name/'' (start empty_world))"
  by (simp add: run_defs sim_defs sales_world_def empty_world_def)

text \<open>
  Claim C8, amended. \<^verbatim>\<open>delete_adls_path\<close> makes the one storage call
  \<^verbatim>\<open>rm(path, recurse=True)\<close>. If the call returns, the function returns no value and prints
  line 172 when the call returned true and line 174 when it returned false, which is not an
  error. If the call raises, the function raises that exception and prints nothing.
\<close>

theorem delete_adls_path_reports_by_message:
  "delete_adls_path E path s =
     (case fs_rm E path True (world s) of
        (Inl e, w') \<Rightarrow>
          (Inl e, \<lparr>world = w',
                   trace = trace s @ [Enter Delete_adls_path, Call (FsRm path True) (Some e)]\<rparr>)
      | (Inr deleted, w') \<Rightarrow>
          (Inr (), \<lparr>world = w',
                    trace = trace s @
                      [Enter Delete_adls_path, Call (FsRm path True) None,
                       Print (if deleted then Deleted_path path else Path_not_found path)]\<rparr>))"
  by (cases "fs_rm E path True (world s)")
     (auto simp: delete_adls_path_def pbind_def enter_def extern_def print_def raised_def
        split: sum.splits)

text \<open>Witness for C8: a folder that exists and one that does not.\<close>

theorem delete_adls_path_reports_by_message_witness:
  "delete_adls_path sim_env ''abfss://t@a/folder_name/'' (start sales_world) =
     (Inr (), \<lparr>world = sales_world\<lparr>folders := []\<rparr>,
               trace = [Enter Delete_adls_path,
                        Call (FsRm ''abfss://t@a/folder_name/'' True) None,
                        Print (Deleted_path ''abfss://t@a/folder_name/'')]\<rparr>) \<and>
   delete_adls_path sim_env ''abfss://t@a/folder_name/'' (start empty_world) =
     (Inr (), \<lparr>world = empty_world,
               trace = [Enter Delete_adls_path,
                        Call (FsRm ''abfss://t@a/folder_name/'' True) None,
                        Print (Path_not_found ''abfss://t@a/folder_name/'')]\<rparr>)"
  using delete_adls_path_reports_by_message[of sim_env "''abfss://t@a/folder_name/''"
          "start sales_world"]
        delete_adls_path_reports_by_message[of sim_env "''abfss://t@a/folder_name/''"
          "start empty_world"]
  by (simp add: sim_env_def sim_rm_def start_def sales_world_def empty_world_def)

subsection \<open>C9: two refreshes in succession\<close>

text \<open>
  Claim C9, evaluated on the reference engine for the configuration that the notebook
  ships: the output path names one folder and the CETAS statement another. The first refresh
  succeeds and leaves the table with its statistics. The second drops the table, finds
  nothing to delete under the output path, and its create is rejected because the files of
  the first run are still at the CETAS location: it raises and leaves no table.
\<close>

theorem refresh_twice_not_idempotent:
  "fst (refresh_once shipped_config empty_world) = Inr () \<and>
   world (snd (refresh_once shipped_config empty_world)) = refreshed_world \<and>
   find_object (sim_cat refreshed_world) ''dbo'' ''Sales'' \<noteq> None \<and>
   fst (refresh_twice shipped_config empty_world) =
     Inl (PyException ''External table location already exists'') \<and>
   world (snd (refresh_twice shipped_config empty_world)) = stale_world \<and>
   find_object (sim_cat stale_world) ''dbo'' ''Sales'' = None \<and>
   stale_world \<noteq> refreshed_world"
  using first_run_shipped second_run_shipped
  by (simp add: refresh_twice_def)
     (simp add: find_object_def refreshed_world_def stale_world_def empty_world_def)

subsection \<open>C10: the create step ignores its configuration\<close>



end
